theory Spec2Isabelle
  imports Complex_Main "HOL-Library.AList"
begin

section \<open>JavaScript values\<close>

text \<open>
  The script is JavaScript running on Google Apps Script. Its numbers are IEEE doubles;
  here a number is an exact rational or \<open>NaN\<close>, so the rounding error of double
  arithmetic and the infinities are outside the model. A date is the record of its
  local-time fields; the invalid date is \<open>None\<close> of \<open>jsdate option\<close>.
\<close>

datatype jsnum = Fin rat | NaN

datatype jsdate = JSDate (getFullYear: int) (getMonth: nat) (getDate: nat)
  (getHours: nat) (getMinutes: nat) (getSeconds: nat)

datatype jsval = JUndefined | JNull | JBool bool | JNum jsnum | JStr string | JDate jsdate

text \<open>Truthiness, as \<open>!x\<close>, \<open>x ? a : b\<close> and \<open>x || d\<close> read it.\<close>

fun truthy :: "jsval \<Rightarrow> bool" where
  "truthy JUndefined = False"
| "truthy JNull = False"
| "truthy (JBool b) = b"
| "truthy (JNum (Fin q)) = (q \<noteq> 0)"
| "truthy (JNum NaN) = False"
| "truthy (JStr s) = (s \<noteq> [])"
| "truthy (JDate d) = True"

definition js_or :: "jsval \<Rightarrow> jsval \<Rightarrow> jsval" where
  "js_or x d = (if truthy x then x else d)"

text \<open>A request parameter that is absent reads as \<open>undefined\<close>.\<close>

definition param :: "string option \<Rightarrow> jsval" where
  "param p = (case p of None \<Rightarrow> JUndefined | Some s \<Rightarrow> JStr s)"

subsection \<open>parseInt\<close>

text \<open>
  \<open>parseInt(string)\<close> with no radix: leading white space is skipped, a sign is read,
  a prefix \<open>0x\<close> selects radix 16, and the longest run of digits is the value; with no
  digit the result is \<open>NaN\<close>, here \<open>None\<close>. Strings are byte strings, so only the
  ASCII white space is recognised.
\<close>

definition isSpace :: "char \<Rightarrow> bool" where
  "isSpace c = (of_char c \<in> {9, 10, 11, 12, 13, 32 :: nat})"

definition digitVal :: "nat \<Rightarrow> char \<Rightarrow> nat option" where
  "digitVal radix c =
     (let n = (of_char c :: nat);
          d = (if 48 \<le> n \<and> n \<le> 57 then Some (n - 48)
               else if 97 \<le> n \<and> n \<le> 122 then Some (n - 87)
               else if 65 \<le> n \<and> n \<le> 90 then Some (n - 55)
               else None)
      in case d of None \<Rightarrow> None | Some v \<Rightarrow> if v < radix then Some v else None)"

fun leadDigits :: "nat \<Rightarrow> string \<Rightarrow> nat list" where
  "leadDigits radix [] = []"
| "leadDigits radix (c # cs) =
     (case digitVal radix c of None \<Rightarrow> [] | Some d \<Rightarrow> d # leadDigits radix cs)"

definition digitsValue :: "nat \<Rightarrow> nat list \<Rightarrow> nat" where
  "digitsValue radix ds = foldl (\<lambda>a d. a * radix + d) 0 ds"

definition parseInt :: "string \<Rightarrow> int option" where
  "parseInt s =
     (let t = dropWhile isSpace s;
          neg = (case t of [] \<Rightarrow> False | c # r \<Rightarrow> c = CHR ''-'');
          u = (case t of [] \<Rightarrow> [] | c # r \<Rightarrow> if c = CHR ''-'' \<or> c = CHR ''+'' then r else t);
          hex = (case u of a # b # r \<Rightarrow> a = CHR ''0'' \<and> (b = CHR ''x'' \<or> b = CHR ''X'') | _ \<Rightarrow> False);
          radix = (if hex then 16 else 10);
          ds = leadDigits radix (if hex then drop 2 u else u)
      in if ds = [] then None
         else Some ((if neg then - 1 else 1) * int (digitsValue radix ds)))"

text \<open>\<open>parseInt\<close> of a value that may be \<open>undefined\<close>: the argument is first made a string.\<close>

definition parseIntOf :: "string option \<Rightarrow> int option" where
  "parseIntOf p = parseInt (case p of None \<Rightarrow> ''undefined'' | Some s \<Rightarrow> s)"

definition numOf :: "int option \<Rightarrow> jsnum" where
  "numOf i = (case i of None \<Rightarrow> NaN | Some n \<Rightarrow> Fin (of_int n))"

subsection \<open>parsePct\<close>

text \<open>\<open>Math.round\<close> rounds to the nearest integer, a half towards plus infinity.\<close>

definition Math_round :: "jsnum \<Rightarrow> jsnum" where
  "Math_round n = (case n of Fin q \<Rightarrow> Fin (of_int \<lfloor>q + 1 / 2\<rfloor>) | NaN \<Rightarrow> NaN)"

fun parsePct :: "jsval \<Rightarrow> jsnum" where
  "parsePct (JStr p) =
     (if CHR ''%'' \<in> set p then numOf (parseInt (remove1 (CHR ''%'') p)) else Fin 0)"
| "parsePct (JNum (Fin q)) =
     (if \<bar>q\<bar> < 10 \<and> q \<noteq> 0 then Math_round (Fin (q * 100)) else Math_round (Fin q))"
| "parsePct (JNum NaN) = Math_round NaN"
| "parsePct _ = Fin 0"


subsection \<open>Numbers as text\<close>

text \<open>
  String concatenation with an integer writes it in decimal (the exponent notation of
  numbers from \<open>10^21\<close> on is outside the model).
\<close>

fun showNat :: "nat \<Rightarrow> string" where
  "showNat n = (if n < 10 then [char_of (48 + n)]
                else showNat (n div 10) @ [char_of (48 + n mod 10)])"

definition showInt :: "int \<Rightarrow> string" where
  "showInt i = (if i < 0 then CHR ''-'' # showNat (nat (- i)) else showNat (nat i))"

definition showNum :: "int option \<Rightarrow> string" where
  "showNum i = (case i of None \<Rightarrow> ''NaN'' | Some n \<Rightarrow> showInt n)"

section \<open>Timestamps\<close>

subsection \<open>The day/month/year pattern\<close>

text \<open>
  The regular expression
  \<^verbatim>\<open>/(\d{2})\/(\d{2})\/(\d{4})\s+(\d{2}):(\d{2}):(\d{2})/\<close>
  is not anchored: \<open>String.match\<close> returns the groups of the leftmost match. After
  the greedy \<open>\s+\<close> a digit must follow, so no backtracking is needed.
\<close>

definition isDigit :: "char \<Rightarrow> bool" where
  "isDigit c = (48 \<le> (of_char c :: nat) \<and> (of_char c :: nat) \<le> 57)"

definition takeDigits :: "nat \<Rightarrow> string \<Rightarrow> (string \<times> string) option" where
  "takeDigits n s =
     (if n \<le> length s \<and> list_all isDigit (take n s) then Some (take n s, drop n s) else None)"

definition expectChar :: "char \<Rightarrow> string \<Rightarrow> string option" where
  "expectChar c s = (case s of [] \<Rightarrow> None | x # r \<Rightarrow> if x = c then Some r else None)"

definition expectSpaces :: "string \<Rightarrow> string option" where
  "expectSpaces s = (case s of [] \<Rightarrow> None
     | x # r \<Rightarrow> if isSpace x then Some (dropWhile isSpace r) else None)"

definition matchHere :: "string \<Rightarrow> string list option" where
  "matchHere s =
     Option.bind (takeDigits 2 s) (\<lambda>(g1, s1).
     Option.bind (expectChar (CHR ''/'') s1) (\<lambda>s2.
     Option.bind (takeDigits 2 s2) (\<lambda>(g2, s3).
     Option.bind (expectChar (CHR ''/'') s3) (\<lambda>s4.
     Option.bind (takeDigits 4 s4) (\<lambda>(g3, s5).
     Option.bind (expectSpaces s5) (\<lambda>s6.
     Option.bind (takeDigits 2 s6) (\<lambda>(g4, s7).
     Option.bind (expectChar (CHR '':'') s7) (\<lambda>s8.
     Option.bind (takeDigits 2 s8) (\<lambda>(g5, s9).
     Option.bind (expectChar (CHR '':'') s9) (\<lambda>s10.
     Option.bind (takeDigits 2 s10) (\<lambda>(g6, s11).
     Some [g1, g2, g3, g4, g5, g6])))))))))))"

text \<open>The groups \<open>parts[1]\<close> to \<open>parts[6]\<close> of the leftmost match, if there is one.\<close>

fun matchTimestamp :: "string \<Rightarrow> string list option" where
  "matchTimestamp [] = None"
| "matchTimestamp (c # cs) =
     (case matchHere (c # cs) of Some g \<Rightarrow> Some g | None \<Rightarrow> matchTimestamp cs)"

subsection \<open>The Date constructor\<close>

text \<open>
  \<open>new Date(year, month, day, hours, minutes, seconds)\<close> takes local-time fields, maps
  the years 0 to 99 to 1900 to 1999, and carries every field that is out of range into
  the next one (month 12 is January of the next year, day 0 the last day of the month
  before). A \<open>NaN\<close> argument or a time beyond 8.64e15 milliseconds from the epoch gives
  the invalid date. Days are counted in the proleptic Gregorian calendar; the offset of
  the script's time zone is not modelled.
\<close>

definition daysFromCivil :: "int \<Rightarrow> int \<Rightarrow> int \<Rightarrow> int" where
  "daysFromCivil y m d =
     (let y' = (if m \<le> 2 then y - 1 else y);
          era = y' div 400;
          yoe = y' - era * 400;
          doy = (153 * (if m > 2 then m - 3 else m + 9) + 2) div 5 + d - 1;
          doe = yoe * 365 + yoe div 4 - yoe div 100 + doy
      in era * 146097 + doe - 719468)"

definition civilFromDays :: "int \<Rightarrow> int \<times> int \<times> int" where
  "civilFromDays z =
     (let z' = z + 719468;
          era = z' div 146097;
          doe = z' - era * 146097;
          yoe = (doe - doe div 1460 + doe div 36524 - doe div 146096) div 365;
          doy = doe - (365 * yoe + yoe div 4 - yoe div 100);
          mp = (5 * doy + 2) div 153;
          d = doy - (153 * mp + 2) div 5 + 1;
          m = (if mp < 10 then mp + 3 else mp - 9)
      in (yoe + era * 400 + (if m \<le> 2 then 1 else 0), m, d))"

definition dateOfSeconds :: "int \<Rightarrow> jsdate" where
  "dateOfSeconds t =
     (let sod = t mod 86400 in
      case civilFromDays (t div 86400) of (y, m, d) \<Rightarrow>
        JSDate y (nat (m - 1)) (nat d) (nat (sod div 3600)) (nat (sod mod 3600 div 60))
          (nat (sod mod 60)))"

definition newDate ::
  "int option \<Rightarrow> int option \<Rightarrow> int option \<Rightarrow> int option \<Rightarrow> int option \<Rightarrow> int option
     \<Rightarrow> jsdate option" where
  "newDate year month day hrs mins secs =
     (case (year, month, day, hrs, mins, secs) of
        (Some y, Some m, Some d, Some h, Some mi, Some s) \<Rightarrow>
          (let yr = (if 0 \<le> y \<and> y \<le> 99 then 1900 + y else y);
               t = (daysFromCivil (yr + m div 12) (m mod 12 + 1) 1 + d - 1) * 86400
                     + h * 3600 + mi * 60 + s
           in if \<bar>t\<bar> \<le> 8640000000000 then Some (dateOfSeconds t) else None)
      | _ \<Rightarrow> None)"

text \<open>
  What the JavaScript engine and the spreadsheet compute outside this model is a
  parameter of it: the generic date parser \<open>new Date(string)\<close>, \<open>parseFloat\<close>, the
  conversions between numbers, dates and strings, the test \<open>SUMIF\<close> applies to a cell
  (criterion first), and the current year and month.
\<close>

record env =
  parseDate :: "string \<Rightarrow> jsdate option"
  parseFloat :: "string \<Rightarrow> jsnum"
  stringToNumber :: "string \<Rightarrow> jsnum"
  dateToNumber :: "jsdate \<Rightarrow> jsnum"
  numberToString :: "jsnum \<Rightarrow> string"
  dateToString :: "jsdate \<Rightarrow> string"
  sumifMatch :: "jsval \<Rightarrow> jsval \<Rightarrow> bool"
  nowYear :: int
  nowMonth :: nat

text \<open>
  The timestamp of a write request, as \<open>doPost\<close>, \<open>addEntry\<close> and \<open>update\<close> each
  compute it: the generic parse, replaced by the day/month/year reading when the
  pattern matches.
\<close>

definition dateFromParts :: "string list \<Rightarrow> jsdate option" where
  "dateFromParts parts =
     (case parts of
        [p1, p2, p3, p4, p5, p6] \<Rightarrow>
          newDate (parseInt p3) (map_option (\<lambda>m. m - 1) (parseInt p2)) (parseInt p1)
            (parseInt p4) (parseInt p5) (parseInt p6)
      | _ \<Rightarrow> None)"

definition timestampDate :: "env \<Rightarrow> string \<Rightarrow> jsdate option" where
  "timestampDate E ts =
     (case matchTimestamp ts of Some parts \<Rightarrow> dateFromParts parts | None \<Rightarrow> parseDate E ts)"

definition monthNames :: "string list" where
  "monthNames = [''January'', ''February'', ''March'', ''April'', ''May'', ''June'',
                 ''July'', ''August'', ''September'', ''October'', ''November'', ''December'']"

text \<open>An array read out of range gives \<open>undefined\<close>, which concatenates as that word.\<close>

definition monthName :: "int option \<Rightarrow> string" where
  "monthName i = (case i of None \<Rightarrow> ''undefined''
     | Some k \<Rightarrow> if 0 \<le> k \<and> k < 12 then monthNames ! nat k else ''undefined'')"

datatype exn = Error string | TypeError string | ServiceError string

definition exnToString :: "exn \<Rightarrow> string" where
  "exnToString e = (case e of Error m \<Rightarrow> ''Error: '' @ m
     | TypeError m \<Rightarrow> ''TypeError: '' @ m
     | ServiceError m \<Rightarrow> ''Exception: '' @ m)"

definition getMonthSheetName :: "jsdate option \<Rightarrow> exn + string" where
  "getMonthSheetName date =
     (case date of
        None \<Rightarrow> Inl (Error ''Invalid date parameter passed to getMonthSheetName: Invalid Date'')
      | Some d \<Rightarrow> Inr (monthName (Some (int (getMonth d))) @ '' '' @ showInt (getFullYear d)))"

definition getSheetNameFromParams :: "int option \<Rightarrow> int option \<Rightarrow> string" where
  "getSheetNameFromParams year month =
     monthName (map_option (\<lambda>m. m - 1) month) @ '' '' @ showNum year"

section \<open>The spreadsheet\<close>

text \<open>
  The store is the active spreadsheet of the script: a list of sheets, each a name and
  a grid of cells. What the script relies on of the spreadsheet service is modelled as
  its reference documents it:
  \<^item> \<open>getSheetByName\<close> finds the sheet of exactly that name, or \<open>null\<close>;
    \<open>insertSheet\<close> adds an empty sheet and refuses a name in use;
  \<^item> \<open>appendRow\<close> writes below the last row that has content in any column;
  \<^item> \<open>deleteRow\<close> removes the whole row, and every row below moves up by one;
  \<^item> \<open>Range.setValues\<close> throws unless the data has the dimensions of the range;
  \<^item> a cell that is read gives its value, the empty string when it is blank, and the
    computed value when it holds a formula;
  \<^item> what a call has written stays written when a later call throws.

  The grid is unbounded: rows and cells past the end of the lists are blank. Quotas,
  protection and the other failures of the service are outside the model, and so are
  the calls that only format (fonts, colours, number formats, widths, frozen rows). A
  cell keeps the value written to it as it is written.

  The formulas the script writes are kept in parsed form. Each refers to the totals
  row 2, to the columns from row 3 down, and to cells of its own row; this is how the
  spreadsheet keeps a reference when a row above is deleted.
  \<^item> \<open>SumCol c\<close> is \<^verbatim>\<open>=SUM(X3:X)\<close> for column \<open>c\<close>;
  \<^item> \<open>SumIfRow\<close> in row \<open>r\<close> is \<^verbatim>\<open>=SUMIF($E$3:$E,Hr,$C$3:$C)\<close>;
  \<^item> \<open>PctRow\<close> in row \<open>r\<close> is \<^verbatim>\<open>=IF($C$2=0,0,Ir/$C$2)\<close>;
  \<^item> \<open>BudgetRow\<close> in row \<open>r\<close> is \<^verbatim>\<open>=1-C2/Ir\<close>.
\<close>

datatype formula = SumCol nat | SumIfRow | PctRow | BudgetRow

datatype cell = Val jsval | Formula formula

type_synonym row = "cell list"

record sheet =
  getName :: string
  grid :: "row list"

type_synonym spreadsheet = "sheet list"

definition blank :: cell where
  "blank = Val (JStr [])"

text \<open>Rows and columns are numbered from 1, as the service numbers them.\<close>

definition rowAt :: "row list \<Rightarrow> nat \<Rightarrow> row" where
  "rowAt g r = (if 1 \<le> r \<and> r \<le> length g then g ! (r - 1) else [])"

definition cellOf :: "row \<Rightarrow> nat \<Rightarrow> cell" where
  "cellOf cs c = (if 1 \<le> c \<and> c \<le> length cs then cs ! (c - 1) else blank)"

definition cellAt :: "row list \<Rightarrow> nat \<Rightarrow> nat \<Rightarrow> cell" where
  "cellAt g r c = cellOf (rowAt g r) c"

definition rowBlank :: "row \<Rightarrow> bool" where
  "rowBlank cs = list_all (\<lambda>c. c = blank) cs"

definition getLastRow :: "row list \<Rightarrow> nat" where
  "getLastRow g = length (dropWhile rowBlank (rev g))"

definition rowWidth :: "row \<Rightarrow> nat" where
  "rowWidth cs = length (dropWhile (\<lambda>c. c = blank) (rev cs))"

definition getLastColumn :: "row list \<Rightarrow> nat" where
  "getLastColumn g = foldr (\<lambda>cs m. max (rowWidth cs) m) g 0"

definition pad :: "nat \<Rightarrow> 'a \<Rightarrow> 'a list \<Rightarrow> 'a list" where
  "pad n x xs = xs @ replicate (n - length xs) x"

definition setCell :: "nat \<Rightarrow> nat \<Rightarrow> cell \<Rightarrow> row list \<Rightarrow> row list" where
  "setCell r c v g =
     (let g' = pad r [] g in g'[r - 1 := (pad c blank (g' ! (r - 1)))[c - 1 := v]])"

text \<open>Writing \<open>undefined\<close>, \<open>null\<close> or the empty string leaves the cell blank.\<close>

definition toCell :: "jsval \<Rightarrow> cell" where
  "toCell v = Val (case v of JUndefined \<Rightarrow> JStr [] | JNull \<Rightarrow> JStr [] | _ \<Rightarrow> v)"

definition setRowValues :: "nat \<Rightarrow> nat \<Rightarrow> jsval list \<Rightarrow> row list \<Rightarrow> row list" where
  "setRowValues r c vs g = fold (\<lambda>j. setCell r (c + j) (toCell (vs ! j))) [0..<length vs] g"

text \<open>
  \<open>getRange(r, c, nr, nc).setValues(data)\<close>: the result is the grid and the exception
  thrown, if any.
\<close>

definition setValues ::
  "nat \<Rightarrow> nat \<Rightarrow> nat \<Rightarrow> nat \<Rightarrow> jsval list list \<Rightarrow> row list \<Rightarrow> row list \<times> exn option" where
  "setValues r c nr nc vals g =
     (if length vals = nr \<and> list_all (\<lambda>vs. length vs = nc) vals
      then (fold (\<lambda>i. setRowValues (r + i) c (vals ! i)) [0..<length vals] g, None)
      else (g, Some (ServiceError
        ''The number of columns in the data does not match the number of columns in the range.'')))"

definition appendRow :: "jsval list \<Rightarrow> row list \<Rightarrow> row list" where
  "appendRow vs g = take (getLastRow g) g @ [map toCell vs]"

definition deleteRow :: "nat \<Rightarrow> row list \<Rightarrow> row list" where
  "deleteRow r g = take (r - 1) g @ drop r g"

definition getSheetByName :: "spreadsheet \<Rightarrow> string \<Rightarrow> sheet option" where
  "getSheetByName ss nm = find (\<lambda>sh. getName sh = nm) ss"

definition insertSheet :: "spreadsheet \<Rightarrow> string \<Rightarrow> exn + spreadsheet" where
  "insertSheet ss nm =
     (case getSheetByName ss nm of
        Some sh \<Rightarrow> Inl (ServiceError (''A sheet with the name '' @ nm @ '' already exists''))
      | None \<Rightarrow> Inr (ss @ [\<lparr>getName = nm, grid = []\<rparr>]))"

text \<open>
  A sheet object is a reference into the store: a call on it changes the sheet of that
  name, the first one should the list hold several.
\<close>

fun onSheet :: "string \<Rightarrow> (row list \<Rightarrow> row list) \<Rightarrow> spreadsheet \<Rightarrow> spreadsheet" where
  "onSheet nm f [] = []"
| "onSheet nm f (sh # ss) =
     (if getName sh = nm then sh\<lparr>grid := f (grid sh)\<rparr> # ss else sh # onSheet nm f ss)"

subsection \<open>Reading cells\<close>

text \<open>
  \<open>SUM\<close> and \<open>SUMIF\<close> add the numbers of a column from row 3 down; text, blanks and,
  in this model, cells that hold a formula do not count.
\<close>

definition numeric :: "cell \<Rightarrow> rat" where
  "numeric c = (case c of Val (JNum (Fin q)) \<Rightarrow> q | _ \<Rightarrow> 0)"

definition plainValue :: "cell \<Rightarrow> jsval" where
  "plainValue c = (case c of Val v \<Rightarrow> v | Formula f \<Rightarrow> JStr [])"

definition sumColumn :: "row list \<Rightarrow> nat \<Rightarrow> rat" where
  "sumColumn g c = sum_list (map (\<lambda>r. numeric (cellAt g r c)) [3..<Suc (getLastRow g)])"

definition sumIf :: "env \<Rightarrow> row list \<Rightarrow> jsval \<Rightarrow> rat" where
  "sumIf E g crit =
     sum_list (map (\<lambda>r. if sumifMatch E crit (plainValue (cellAt g r 5))
                         then numeric (cellAt g r 3) else 0) [3..<Suc (getLastRow g)])"

definition eval1 :: "env \<Rightarrow> row list \<Rightarrow> nat \<Rightarrow> nat \<Rightarrow> jsval" where
  "eval1 E g r c =
     (case cellAt g r c of
        Val v \<Rightarrow> v
      | Formula (SumCol k) \<Rightarrow> JNum (Fin (sumColumn g k))
      | Formula SumIfRow \<Rightarrow> JNum (Fin (sumIf E g (plainValue (cellAt g r 8))))
      | Formula f \<Rightarrow> JStr ''#REF!'')"

text \<open>An operand of a formula: a blank counts as 0, text is an error.\<close>

definition operand :: "jsval \<Rightarrow> rat option" where
  "operand v = (case v of
       JNum (Fin q) \<Rightarrow> Some q
     | JBool b \<Rightarrow> Some (if b then 1 else 0)
     | JStr s \<Rightarrow> if s = [] then Some 0 else None
     | _ \<Rightarrow> None)"

definition getValue :: "env \<Rightarrow> row list \<Rightarrow> nat \<Rightarrow> nat \<Rightarrow> jsval" where
  "getValue E g r c =
     (case cellAt g r c of
        Formula PctRow \<Rightarrow>
          (case operand (eval1 E g 2 3) of
             None \<Rightarrow> JStr ''#VALUE!''
           | Some t \<Rightarrow> if t = 0 then JNum (Fin 0)
               else (case operand (eval1 E g r 9) of
                       None \<Rightarrow> JStr ''#VALUE!''
                     | Some a \<Rightarrow> JNum (Fin (a / t))))
      | Formula BudgetRow \<Rightarrow>
          (case (operand (eval1 E g 2 3), operand (eval1 E g r 9)) of
             (Some t, Some b) \<Rightarrow> if b = 0 then JStr ''#DIV/0!'' else JNum (Fin (1 - t / b))
           | _ \<Rightarrow> JStr ''#VALUE!'')
      | _ \<Rightarrow> eval1 E g r c)"

text \<open>\<open>getDataRange().getValues()\<close>: the rows and columns up to the last ones with content.\<close>

definition getDataValues :: "env \<Rightarrow> row list \<Rightarrow> jsval list list" where
  "getDataValues E g =
     map (\<lambda>r. map (\<lambda>c. getValue E g r c) [1..<Suc (max 1 (getLastColumn g))])
       [1..<Suc (max 1 (getLastRow g))]"

definition nthVal :: "jsval list \<Rightarrow> nat \<Rightarrow> jsval" where
  "nthVal vs k = (if k < length vs then vs ! k else JUndefined)"

subsection \<open>Conversions\<close>

definition Number :: "env \<Rightarrow> jsval \<Rightarrow> jsnum" where
  "Number E v = (case v of
       JUndefined \<Rightarrow> NaN
     | JNull \<Rightarrow> Fin 0
     | JBool b \<Rightarrow> Fin (if b then 1 else 0)
     | JNum n \<Rightarrow> n
     | JStr s \<Rightarrow> if s = [] then Fin 0 else stringToNumber E s
     | JDate d \<Rightarrow> dateToNumber E d)"

definition String :: "env \<Rightarrow> jsval \<Rightarrow> string" where
  "String E v = (case v of
       JUndefined \<Rightarrow> ''undefined''
     | JNull \<Rightarrow> ''null''
     | JBool b \<Rightarrow> if b then ''true'' else ''false''
     | JNum n \<Rightarrow> numberToString E n
     | JStr s \<Rightarrow> s
     | JDate d \<Rightarrow> dateToString E d)"

definition parseFloatOf :: "env \<Rightarrow> string option \<Rightarrow> jsnum" where
  "parseFloatOf E p = parseFloat E (case p of None \<Rightarrow> ''undefined'' | Some s \<Rightarrow> s)"

definition zero :: jsval where
  "zero = JNum (Fin 0)"

section \<open>The script\<close>

subsection \<open>Creating a month sheet\<close>

text \<open>Statements run in sequence until one throws; what was written before stays.\<close>

definition andThen ::
  "row list \<times> exn option \<Rightarrow> (row list \<Rightarrow> row list \<times> exn option) \<Rightarrow> row list \<times> exn option" where
  "andThen st f = (case st of (g, None) \<Rightarrow> f g | (g, Some e) \<Rightarrow> (g, Some e))"

definition categories :: "jsval list list" where
  "categories = [[JStr ''Food''], [JStr ''Travel''], [JStr ''Shopping''], [JStr ''Bills''],
     [JStr ''Fun''], [JStr ''Health''], [JStr ''Groceries''], [JStr ''Saving''], [JStr ''Other'']]"

text \<open>
  The body of \<open>createMonthSheet\<close> after \<open>insertSheet\<close>, on the grid of the new sheet.
  The ranges are \<open>A1:K1\<close> (row 1, columns 1 to 11), \<open>H2:J2\<close>, \<open>H3:H11\<close>, the cells
  \<open>A2\<close> to \<open>D2\<close>, \<open>I3:I11\<close>, \<open>J3:J11\<close> and \<open>H12\<close>, \<open>I12\<close>, \<open>J12\<close>. The
  header write comes first; \<open>layoutRest\<close> is every statement after it.
\<close>

definition headerRow :: "jsval list" where
  "headerRow = [JStr ''Timestamp'', JStr ''VND'', JStr ''EUR'', JStr ''USD'', JStr ''Category'',
     JStr ''Note'', JStr [], JStr ''SUMMARY'', JStr [], JStr []]"

definition layoutRest :: "row list \<Rightarrow> row list \<times> exn option" where
  "layoutRest g1 =
     andThen (setValues 2 8 1 3 [[JStr ''Category'', JStr ''EUR'', JStr ''%'']]
       (setCell 2 4 (Formula (SumCol 4))
       (setCell 2 3 (Formula (SumCol 3))
       (setCell 2 2 (Formula (SumCol 2))
       (setCell 2 1 (Val (JStr ''TOTALS'')) g1))))) (\<lambda>g2.
     andThen (setValues 3 8 9 1 categories g2) (\<lambda>g3.
       (setCell 12 10 (Formula BudgetRow)
       (setCell 12 9 (Val (JNum (Fin 1600)))
       (setCell 12 8 (Val (JStr ''Budget''))
       (fold (\<lambda>r. setCell r 10 (Formula PctRow)) [3..<12]
       (fold (\<lambda>r. setCell r 9 (Formula SumIfRow)) [3..<12] g3)))), None)))"

definition layoutMonthSheet :: "row list \<Rightarrow> row list \<times> exn option" where
  "layoutMonthSheet g0 = andThen (setValues 1 1 1 11 [headerRow] g0) layoutRest"

text \<open>The result is the store, and the name of the new sheet or the exception thrown.\<close>

definition createMonthSheet :: "spreadsheet \<Rightarrow> string \<Rightarrow> spreadsheet \<times> (exn + string)" where
  "createMonthSheet ss sheetName =
     (case insertSheet ss sheetName of
        Inl e \<Rightarrow> (ss, Inl e)
      | Inr ss1 \<Rightarrow>
          (case layoutMonthSheet [] of
             (g, None) \<Rightarrow> (onSheet sheetName (\<lambda>_. g) ss1, Inr sheetName)
           | (g, Some e) \<Rightarrow> (onSheet sheetName (\<lambda>_. g) ss1, Inl e)))"

definition getOrCreateMonthSheet ::
  "spreadsheet \<Rightarrow> jsdate option \<Rightarrow> spreadsheet \<times> (exn + string)" where
  "getOrCreateMonthSheet ss date =
     (case getMonthSheetName date of
        Inl e \<Rightarrow> (ss, Inl e)
      | Inr sheetName \<Rightarrow>
          (case getSheetByName ss sheetName of
             Some sh \<Rightarrow> (ss, Inr sheetName)
           | None \<Rightarrow> createMonthSheet ss sheetName))"

subsection \<open>Responses\<close>

datatype isostring = ISO jsdate | Verbatim string

record transaction =
  tx_row :: nat
  tx_sheetName :: string
  tx_timestamp :: isostring
  tx_vnd :: jsval
  tx_eur :: jsval
  tx_usd :: jsval
  tx_category :: jsval
  tx_note :: jsval

type_synonym stats = "(string \<times> (jsval \<times> jsnum)) list"

type_synonym budget = "jsval \<times> jsnum"

datatype status = success | error

text \<open>
  The JSON objects the script answers with, before they are made text: a message, the
  batched answer, the totals, the transaction list, and the statistics.
\<close>

datatype response =
    Message status string
  | AllData jsval jsval jsval "transaction list" stats budget
  | Totals jsval jsval jsval
  | Transactions "transaction list"
  | Stats stats budget

fun statusOf :: "response \<Rightarrow> status" where
  "statusOf (Message st m) = st"
| "statusOf (AllData v e u ts st b) = success"
| "statusOf (Totals v e u) = success"
| "statusOf (Transactions ts) = success"
| "statusOf (Stats st b) = success"

definition ok :: "string \<Rightarrow> response" where
  "ok msg = Message success msg"

definition err :: "string \<Rightarrow> response" where
  "err msg = Message error msg"

subsection \<open>Reading a month\<close>

text \<open>
  \<open>toISO\<close>: \<open>ISO d\<close> stands for the text \<open>d.toISOString()\<close>, which is a
  \<open>RangeError\<close> on the invalid date.
\<close>

definition toISOString :: "jsdate option \<Rightarrow> exn + isostring" where
  "toISOString d = (case d of None \<Rightarrow> Inl (Error ''RangeError: Invalid time value'')
     | Some x \<Rightarrow> Inr (ISO x))"

definition toISO :: "env \<Rightarrow> jsval \<Rightarrow> exn + isostring" where
  "toISO E ts =
     (case ts of
        JDate d \<Rightarrow> toISOString (Some d)
      | _ \<Rightarrow>
         (let str = String E ts in
          case matchTimestamp str of
            Some parts \<Rightarrow> toISOString (dateFromParts parts)
          | None \<Rightarrow> (case parseDate E str of None \<Rightarrow> Inr (Verbatim str)
                      | Some d \<Rightarrow> toISOString (Some d))))"

definition numberOr0 :: "env \<Rightarrow> jsval \<Rightarrow> jsval" where
  "numberOr0 E v = js_or (JNum (Number E v)) zero"

text \<open>
  The loop \<open>for (i = values.length - 1; i >= 2; i--)\<close> of \<open>getAllData\<close> and of
  \<open>getTransactionHistory\<close>; the third argument is \<open>i + 1\<close>.
\<close>

fun collect :: "env \<Rightarrow> string \<Rightarrow> jsval list list \<Rightarrow> nat \<Rightarrow> exn + transaction list" where
  "collect E nm vals 0 = Inr []"
| "collect E nm vals (Suc i) =
     (if i < 2 then Inr []
      else let r = vals ! i in
        if \<not> truthy (nthVal r 0) then collect E nm vals i
        else (case toISO E (nthVal r 0) of
                Inl e \<Rightarrow> Inl e
              | Inr ts \<Rightarrow>
                 (case collect E nm vals i of
                    Inl e \<Rightarrow> Inl e
                  | Inr rest \<Rightarrow>
                      Inr (\<lparr>tx_row = i + 1, tx_sheetName = nm, tx_timestamp = ts,
                            tx_vnd = numberOr0 E (nthVal r 1),
                            tx_eur = numberOr0 E (nthVal r 2),
                            tx_usd = numberOr0 E (nthVal r 3),
                            tx_category = js_or (nthVal r 4) (JStr []),
                            tx_note = js_or (nthVal r 5) (JStr [])\<rparr> # rest))))"

definition transactionsOf :: "env \<Rightarrow> sheet \<Rightarrow> exn + transaction list" where
  "transactionsOf E sh =
     (let vals = getDataValues E (grid sh) in collect E (getName sh) vals (length vals))"

text \<open>The loop over \<open>H3:H11\<close>, \<open>I3:I11\<close> and \<open>J3:J11\<close> that fills the \<open>stats\<close> object.\<close>

definition statsOf :: "env \<Rightarrow> row list \<Rightarrow> stats" where
  "statsOf E g =
     fold (\<lambda>j st.
        let cat = getValue E g (3 + j) 8 in
        if \<not> truthy cat then st
        else AList.update (String E cat)
               (numberOr0 E (getValue E g (3 + j) 9), parsePct (getValue E g (3 + j) 10)) st)
       [0..<9] []"

definition budgetOf :: "env \<Rightarrow> row list \<Rightarrow> budget" where
  "budgetOf E g =
     (numberOr0 E (js_or (getValue E g 12 9) zero), parsePct (js_or (getValue E g 12 10) zero))"

text \<open>A call on \<open>null\<close>, the sheet that was not found, is a \<open>TypeError\<close>.\<close>

definition nullSheet :: exn where
  "nullSheet = TypeError ''Cannot read properties of null''"

definition getAllData :: "env \<Rightarrow> sheet option \<Rightarrow> exn + response" where
  "getAllData E sheet =
     (case sheet of
        None \<Rightarrow> Inl nullSheet
      | Some sh \<Rightarrow>
         (case transactionsOf E sh of
            Inl e \<Rightarrow> Inl e
          | Inr transactions \<Rightarrow>
              Inr (AllData (js_or (getValue E (grid sh) 2 2) zero)
                     (js_or (getValue E (grid sh) 2 3) zero)
                     (js_or (getValue E (grid sh) 2 4) zero)
                     transactions (statsOf E (grid sh)) (budgetOf E (grid sh)))))"

definition getMonthlyTotals :: "env \<Rightarrow> sheet option \<Rightarrow> exn + response" where
  "getMonthlyTotals E sheet =
     (case sheet of
        None \<Rightarrow> Inl nullSheet
      | Some sh \<Rightarrow>
          Inr (Totals (js_or (getValue E (grid sh) 2 2) zero)
                 (js_or (getValue E (grid sh) 2 3) zero)
                 (js_or (getValue E (grid sh) 2 4) zero)))"

definition getTransactionHistory :: "env \<Rightarrow> sheet option \<Rightarrow> exn + response" where
  "getTransactionHistory E sheet =
     (case sheet of
        None \<Rightarrow> Inl nullSheet
      | Some sh \<Rightarrow>
         (case transactionsOf E sh of
            Inl e \<Rightarrow> Inl e
          | Inr transactions \<Rightarrow> Inr (Transactions transactions)))"

definition getStatsData :: "env \<Rightarrow> sheet option \<Rightarrow> exn + response" where
  "getStatsData E sheet =
     (case sheet of
        None \<Rightarrow> Inl nullSheet
      | Some sh \<Rightarrow> Inr (Stats (statsOf E (grid sh)) (budgetOf E (grid sh))))"

subsection \<open>Requests\<close>

text \<open>
  \<open>e.parameter\<close> of a GET request: every parameter is a string or absent. The body
  of a POST request is \<open>None\<close> when \<open>JSON.parse\<close> throws or gives no object; its
  fields are JSON scalars.
\<close>

record params =
  p_action :: "string option"
  p_year :: "string option"
  p_month :: "string option"
  p_row :: "string option"
  p_sheetName :: "string option"
  p_timestamp :: "string option"
  p_vnd :: "string option"
  p_eur :: "string option"
  p_usd :: "string option"
  p_category :: "string option"
  p_note :: "string option"
  p_budget :: "string option"

record postData =
  d_timestamp :: jsval
  d_vnd :: jsval
  d_eur :: jsval
  d_usd :: jsval
  d_category :: jsval
  d_note :: jsval

text \<open>A parameter as text; it is empty exactly when the parameter is falsy.\<close>

definition paramStr :: "string option \<Rightarrow> string" where
  "paramStr p = (case p of None \<Rightarrow> [] | Some s \<Rightarrow> s)"

text \<open>The six cells \<open>addEntry\<close> and \<open>update\<close> write.\<close>

definition rowValues :: "env \<Rightarrow> params \<Rightarrow> string \<Rightarrow> jsval list" where
  "rowValues E P ts =
     [JStr ts,
      js_or (JNum (parseFloatOf E (p_vnd P))) zero,
      js_or (JNum (parseFloatOf E (p_eur P))) zero,
      js_or (JNum (parseFloatOf E (p_usd P))) zero,
      js_or (param (p_category P)) (JStr []),
      js_or (param (p_note P)) (JStr [])]"

subsection \<open>doPost\<close>

definition doPost :: "env \<Rightarrow> spreadsheet \<Rightarrow> postData option \<Rightarrow> spreadsheet \<times> response" where
  "doPost E ss contents =
     (case contents of
        None \<Rightarrow> (ss, err (exnToString (Error ''SyntaxError: Unexpected token in JSON'')))
      | Some data \<Rightarrow>
         (case d_timestamp data of
            JStr ts \<Rightarrow>
              (case getOrCreateMonthSheet ss (timestampDate E ts) of
                 (ss1, Inl e) \<Rightarrow> (ss1, err (exnToString e))
               | (ss1, Inr sheet) \<Rightarrow>
                   (onSheet sheet
                      (appendRow [JStr ts, js_or (d_vnd data) zero, js_or (d_eur data) zero,
                         js_or (d_usd data) zero, js_or (d_category data) (JStr []),
                         js_or (d_note data) (JStr [])]) ss1,
                    ok (''Added to '' @ sheet)))
          | _ \<Rightarrow> (ss, err (exnToString (TypeError ''data.timestamp.match is not a function'')))))"

subsection \<open>doGet\<close>

text \<open>\<open>!row || row < 3\<close>, for \<open>row = parseInt(e.parameter.row)\<close>.\<close>

definition invalidRow :: "int option \<Rightarrow> bool" where
  "invalidRow row = (case row of None \<Rightarrow> True | Some r \<Rightarrow> r = 0 \<or> r < 3)"

definition rowNumber :: "int option \<Rightarrow> nat" where
  "rowNumber row = (case row of None \<Rightarrow> 0 | Some r \<Rightarrow> nat r)"

definition doDelete :: "spreadsheet \<Rightarrow> params \<Rightarrow> spreadsheet \<times> response" where
  "doDelete ss P =
     (let row = parseIntOf (p_row P);
          sheetNameForRow = paramStr (p_sheetName P)
      in if invalidRow row \<or> sheetNameForRow = [] then (ss, err ''Invalid parameters for delete'')
         else (case getSheetByName ss sheetNameForRow of
                 None \<Rightarrow> (ss, err (''Sheet not found: '' @ sheetNameForRow))
               | Some targetSheet \<Rightarrow>
                   (onSheet sheetNameForRow (deleteRow (rowNumber row)) ss,
                    ok (''Deleted row '' @ showNum row @ '' from '' @ sheetNameForRow))))"

definition doUpdate :: "env \<Rightarrow> spreadsheet \<Rightarrow> params \<Rightarrow> spreadsheet \<times> response" where
  "doUpdate E ss P =
     (let uRow = parseIntOf (p_row P);
          sheetNameForUpdate = paramStr (p_sheetName P)
      in if invalidRow uRow \<or> sheetNameForUpdate = [] then (ss, err ''Invalid parameters for update'')
         else (case getSheetByName ss sheetNameForUpdate of
            None \<Rightarrow> (ss, err (''Sheet not found: '' @ sheetNameForUpdate))
          | Some targetSheet \<Rightarrow>
             (case p_timestamp P of
                None \<Rightarrow> (ss, err (''Update failed: '' @ exnToString
                          (TypeError ''Cannot read properties of undefined'')))
              | Some newTimestamp \<Rightarrow>
                 (case getMonthSheetName (timestampDate E newTimestamp) of
                    Inl e \<Rightarrow> (ss, err (''Update failed: '' @ exnToString e))
                  | Inr newSheetName \<Rightarrow>
                     if newSheetName \<noteq> sheetNameForUpdate then
                       (case getOrCreateMonthSheet ss (timestampDate E newTimestamp) of
                          (ss1, Inl e) \<Rightarrow> (ss1, err (''Update failed: '' @ exnToString e))
                        | (ss1, Inr newSheet) \<Rightarrow>
                            (onSheet sheetNameForUpdate (deleteRow (rowNumber uRow))
                               (onSheet newSheet (appendRow (rowValues E P newTimestamp)) ss1),
                             ok (''Moved from '' @ sheetNameForUpdate @ '' to '' @ newSheetName)))
                     else
                       (case setValues (rowNumber uRow) 1 1 6 [rowValues E P newTimestamp]
                               (grid targetSheet) of
                          (g, None) \<Rightarrow>
                            (onSheet sheetNameForUpdate (\<lambda>_. g) ss,
                             ok (''Updated row '' @ showNum uRow))
                        | (g, Some e) \<Rightarrow>
                            (onSheet sheetNameForUpdate (\<lambda>_. g) ss,
                             err (''Update failed: '' @ exnToString e)))))))"

definition doAddEntry :: "env \<Rightarrow> spreadsheet \<Rightarrow> params \<Rightarrow> spreadsheet \<times> response" where
  "doAddEntry E ss P =
     (case p_timestamp P of
        None \<Rightarrow> (ss, err (''Add failed: '' @ exnToString
                  (TypeError ''Cannot read properties of undefined'')))
      | Some ts \<Rightarrow>
         (case getOrCreateMonthSheet ss (timestampDate E ts) of
            (ss1, Inl e) \<Rightarrow> (ss1, err (''Add failed: '' @ exnToString e))
          | (ss1, Inr targetSheet) \<Rightarrow>
              (onSheet targetSheet (appendRow (rowValues E P ts)) ss1,
               ok (''Added to '' @ targetSheet))))"

text \<open>
  \<open>updateBudget\<close>: the call of \<open>getOrCreateMonthSheet\<close> stands outside the
  \<open>try\<close>, so what it throws leaves \<open>doGet\<close> uncaught.
\<close>

definition doUpdateBudget ::
  "env \<Rightarrow> spreadsheet \<Rightarrow> params \<Rightarrow> int option \<Rightarrow> int option \<Rightarrow> string \<Rightarrow> spreadsheet \<times> (exn + response)" where
  "doUpdateBudget E ss P year month sheetName =
     (case parseFloatOf E (p_budget P) of
        NaN \<Rightarrow> (ss, Inr (err ''Invalid budget amount''))
      | Fin budgetAmount \<Rightarrow>
         if budgetAmount = 0 \<or> budgetAmount \<le> 0 then (ss, Inr (err ''Invalid budget amount''))
         else (case (year, month) of
            (Some y, Some m) \<Rightarrow>
              if m < 1 \<or> m > 12 then
                (ss, Inr (err (''Invalid year or month parameters: year='' @ showNum year
                   @ '', month='' @ showNum month)))
              else
                (case (case getSheetByName ss sheetName of
                         Some sh \<Rightarrow> (ss, Inr (Inr sheetName))
                       | None \<Rightarrow>
                          (case newDate year (Some (m - 1)) (Some 1) (Some 0) (Some 0) (Some 0) of
                             None \<Rightarrow> (ss, Inr (Inl (err (''Invalid date created from year=''
                                        @ showNum year @ '', month='' @ showNum month))))
                           | Some date \<Rightarrow>
                              (case getOrCreateMonthSheet ss (Some date) of
                                 (ss1, Inl e) \<Rightarrow> (ss1, Inl e)
                               | (ss1, Inr nm) \<Rightarrow> (ss1, Inr (Inr nm))))) of
                   (ss1, Inl e) \<Rightarrow> (ss1, Inl e)
                 | (ss1, Inr (Inl r)) \<Rightarrow> (ss1, Inr r)
                 | (ss1, Inr (Inr sheet)) \<Rightarrow>
                     (onSheet sheet (setCell 12 9 (Val (JNum (Fin budgetAmount)))) ss1,
                      Inr (ok (''Budget updated to '' @ numberToString E (Fin budgetAmount)))))
          | _ \<Rightarrow>
              (ss, Inr (err (''Invalid year or month parameters: year='' @ showNum year
                 @ '', month='' @ showNum month)))))"

text \<open>The answer to a read of a month that has no sheet.\<close>

definition emptyData :: response where
  "emptyData = AllData zero zero zero [] [] (zero, Fin 0)"

text \<open>The year, the month and the sheet name \<open>doGet\<close> computes first.\<close>

definition requestYear :: "env \<Rightarrow> params \<Rightarrow> int option" where
  "requestYear E P =
     (if paramStr (p_year P) = [] then Some (nowYear E) else parseInt (paramStr (p_year P)))"

definition requestMonth :: "env \<Rightarrow> params \<Rightarrow> int option" where
  "requestMonth E P =
     (if paramStr (p_month P) = [] then Some (int (nowMonth E))
      else parseInt (paramStr (p_month P)))"

definition requestSheetName :: "env \<Rightarrow> params \<Rightarrow> string" where
  "requestSheetName E P = getSheetNameFromParams (requestYear E P) (requestMonth E P)"

definition doGet :: "env \<Rightarrow> spreadsheet \<Rightarrow> params \<Rightarrow> spreadsheet \<times> (exn + response)" where
  "doGet E ss P =
     (let action = (if paramStr (p_action P) = [] then ''default'' else paramStr (p_action P));
          year = requestYear E P;
          month = requestMonth E P;
          sheetName = requestSheetName E P;
          sheet = getSheetByName ss sheetName
      in if sheet = None \<and>
            (action = ''getAllData'' \<or> action = ''getTransactions'' \<or> action = ''getStats'')
         then (ss, Inr emptyData)
         else if action = ''delete'' then (case doDelete ss P of (ss1, r) \<Rightarrow> (ss1, Inr r))
         else if action = ''update'' then (case doUpdate E ss P of (ss1, r) \<Rightarrow> (ss1, Inr r))
         else if action = ''addEntry'' then (case doAddEntry E ss P of (ss1, r) \<Rightarrow> (ss1, Inr r))
         else if action = ''updateBudget'' then doUpdateBudget E ss P year month sheetName
         else if action = ''getAllData'' then (ss, getAllData E sheet)
         else if action = ''getTransactions'' then (ss, getTransactionHistory E sheet)
         else if action = ''getStats'' then (ss, getStatsData E sheet)
         else (ss, getMonthlyTotals E sheet))"

section \<open>Notions the properties are stated with\<close>

text \<open>The number of sheets of one name in the store.\<close>

definition countSheets :: "spreadsheet \<Rightarrow> string \<Rightarrow> nat" where
  "countSheets ss nm = length (filter (\<lambda>sh. getName sh = nm) ss)"

text \<open>The shape of the six groups of a match of the day/month/year pattern.\<close>

definition digitGroups :: "string list \<Rightarrow> bool" where
  "digitGroups parts = (case parts of
       [p1, p2, p3, p4, p5, p6] \<Rightarrow>
         list_all (\<lambda>p. length p = 2 \<and> list_all isDigit p) [p1, p2, p4, p5, p6]
         \<and> length p3 = 4 \<and> list_all isDigit p3
     | _ \<Rightarrow> False)"

text \<open>
  The data rows of a sheet: the rows from row 3 to the last row with content whose
  timestamp cell (column A) is not empty, in ascending order.
\<close>

definition dataRows :: "env \<Rightarrow> row list \<Rightarrow> nat list" where
  "dataRows E g = filter (\<lambda>r. truthy (getValue E g r 1)) [3..<Suc (getLastRow g)]"





text \<open>
  A grid whose timestamp cells hold values, not formulas, as the rows the script
  appends do; and a row whose timestamp cell is truthy.
\<close>

definition plainTimestamps :: "row list \<Rightarrow> bool" where
  "plainTimestamps g = list_all (\<lambda>cs. case cellOf cs 1 of Val v \<Rightarrow> True | Formula f \<Rightarrow> False) g"

definition hasTimestamp :: "row \<Rightarrow> bool" where
  "hasTimestamp cs = truthy (plainValue (cellOf cs 1))"

section \<open>Sample data\<close>

text \<open>
  An environment for the examples: no text parses as a date on its own, and amounts
  are read as integers.
\<close>

definition demoEnv :: env where
  "demoEnv = \<lparr>parseDate = (\<lambda>s. None), parseFloat = (\<lambda>s. numOf (parseInt s)),
     stringToNumber = (\<lambda>s. numOf (parseInt s)), dateToNumber = (\<lambda>d. Fin 1),
     numberToString = (\<lambda>n. case n of NaN \<Rightarrow> ''NaN'' | Fin q \<Rightarrow> showInt \<lfloor>q\<rfloor>),
     dateToString = (\<lambda>d. ''date''), sumifMatch = (\<lambda>crit v. crit = v),
     nowYear = 2026, nowMonth = 11\<rparr>"

definition noParams :: params where
  "noParams = \<lparr>p_action = None, p_year = None, p_month = None, p_row = None,
     p_sheetName = None, p_timestamp = None, p_vnd = None, p_eur = None, p_usd = None,
     p_category = None, p_note = None, p_budget = None\<rparr>"

definition february :: jsdate where
  "february = JSDate 2026 1 15 10 30 0"

definition sampleGrid :: "row list" where
  "sampleGrid = [[Val (JStr ''Timestamp'')], [Val (JStr ''TOTALS'')],
     [Val (JStr ''15/02/2026 10:30:00''), Val (JNum (Fin 0)), Val (JNum (Fin 800)),
      Val (JNum (Fin 0)), Val (JStr ''Food''), blank],
     [Val (JStr ''16/02/2026 08:00:00''), Val (JNum (Fin 0)), Val (JNum (Fin 5)),
      Val (JNum (Fin 0)), Val (JStr ''Fun''), Val (JStr ''tea'')]]"

definition sampleStore :: spreadsheet where
  "sampleStore = [\<lparr>getName = ''February 2026'', grid = sampleGrid\<rparr>]"

definition moveRequest :: params where
  "moveRequest = noParams\<lparr>p_action := Some ''update'', p_row := Some ''3'',
     p_sheetName := Some ''February 2026'', p_timestamp := Some ''15/03/2026 10:30:00'',
     p_eur := Some ''800'', p_category := Some ''Food''\<rparr>"

definition addRequest :: params where
  "addRequest = noParams\<lparr>p_action := Some ''addEntry'',
     p_timestamp := Some ''15/02/2026 10:30:00'', p_eur := Some ''800'',
     p_category := Some ''Food''\<rparr>"

definition statsRequest :: params where
  "statsRequest = noParams\<lparr>p_action := Some ''getStats'', p_year := Some ''2026'',
     p_month := Some ''2''\<rparr>"

definition rangeMismatch :: exn where
  "rangeMismatch = ServiceError
     ''The number of columns in the data does not match the number of columns in the range.''"

definition updateRequest :: params where
  "updateRequest = noParams\<lparr>p_action := Some ''update'', p_row := Some ''3'',
     p_sheetName := Some ''February 2026'', p_timestamp := Some ''20/02/2026 09:00:00'',
     p_eur := Some ''12'', p_category := Some ''Fun''\<rparr>"




definition badAddRequest :: params where
  "badAddRequest = noParams\<lparr>p_action := Some ''addEntry'', p_timestamp := Some ''yesterday''\<rparr>"


definition sampleSheet :: sheet where
  "sampleSheet = \<lparr>getName = ''February 2026'', grid = sampleGrid\<rparr>"

section \<open>The percentage rule\<close>





section \<open>The store and the grid\<close>

text \<open>
  A call on a sheet changes that sheet and no other; a cell write changes that cell and
  no other; deleting a row moves the rows below it up by one.
\<close>

lemma getSheetByName_onSheet:
  "getSheetByName (onSheet nm f ss) n =
     (if n = nm then map_option (\<lambda>sh. sh\<lparr>grid := f (grid sh)\<rparr>) (getSheetByName ss nm)
      else getSheetByName ss n)"
  by (induction ss) (auto simp: getSheetByName_def)

lemma names_onSheet: "map getName (onSheet nm f ss) = map getName ss"
  by (induction ss) auto

lemma onSheet_absent: "getSheetByName ss nm = None \<Longrightarrow> onSheet nm f ss = ss"
  by (induction ss) (auto simp: getSheetByName_def split: if_splits)

lemma getSheetByName_name: "getSheetByName ss nm = Some sh \<Longrightarrow> getName sh = nm"
  by (induction ss) (auto simp: getSheetByName_def split: if_splits)

lemma onSheet_onSheet: "onSheet nm f (onSheet nm h ss) = onSheet nm (\<lambda>g. f (h g)) ss"
  by (induction ss) auto

lemma getSheetByName_append:
  "getSheetByName (ss @ ts) nm =
     (case getSheetByName ss nm of Some sh \<Rightarrow> Some sh | None \<Rightarrow> getSheetByName ts nm)"
  by (induction ss) (auto simp: getSheetByName_def)

lemma getSheetByName_None_filter:
  "getSheetByName ss nm = None \<longleftrightarrow> filter (\<lambda>sh. getName sh = nm) ss = []"
  by (induction ss) (auto simp: getSheetByName_def)

lemma onSheet_append_new:
  "getSheetByName ss nm = None \<Longrightarrow>
     onSheet nm f (ss @ [\<lparr>getName = nm, grid = g\<rparr>]) = ss @ [\<lparr>getName = nm, grid = f g\<rparr>]"
  by (induction ss) (auto simp: getSheetByName_def split: if_splits)

lemma rowAt_pad: "rowAt (pad n [] g) r = rowAt g r"
  by (auto simp: rowAt_def pad_def nth_append)

lemma rowAt_update:
  "1 \<le> r \<Longrightarrow> r \<le> length g \<Longrightarrow>
     rowAt (g[r - 1 := cs]) r' = (if r' = r then cs else rowAt g r')"
  by (auto simp: rowAt_def nth_list_update)

lemma cellOf_pad: "cellOf (pad n blank cs) c = cellOf cs c"
  by (auto simp: cellOf_def pad_def nth_append)

lemma cellOf_update:
  "1 \<le> c \<Longrightarrow> c \<le> length cs \<Longrightarrow>
     cellOf (cs[c - 1 := v]) c' = (if c' = c then v else cellOf cs c')"
  by (auto simp: cellOf_def nth_list_update)

lemma length_pad: "n \<le> length (pad n x xs)"
  by (simp add: pad_def)

lemma rowAt_setCell:
  assumes "1 \<le> r"
  shows "rowAt (setCell r c v g) r' =
     (if r' = r then (pad c blank (rowAt g r))[c - 1 := v] else rowAt g r')"
proof -
  have "rowAt (pad r [] g) r = pad r [] g ! (r - 1)"
    using assms length_pad [of r "[]" g] by (simp add: rowAt_def)
  then have "pad r [] g ! (r - 1) = rowAt g r" by (simp add: rowAt_pad)
  then show ?thesis
    using assms rowAt_update [OF assms length_pad, of "[]" g]
    by (simp add: setCell_def Let_def rowAt_pad)
qed

lemma cellAt_setCell:
  assumes "1 \<le> r" "1 \<le> c"
  shows "cellAt (setCell r c v g) r' c' = (if r' = r \<and> c' = c then v else cellAt g r' c')"
proof -
  have upd: "cellOf ((pad c blank (rowAt g r))[c - 1 := v]) k =
      (if k = c then v else cellOf (rowAt g r) k)" for k
    using cellOf_update [OF assms(2) length_pad, of blank "rowAt g r" v k]
    by (simp add: cellOf_pad)
  show ?thesis
    using assms(1) by (simp add: cellAt_def rowAt_setCell upd del: One_nat_def)
qed

lemma cellAt_fold_setCell:
  assumes "1 \<le> r" "1 \<le> c"
  shows "cellAt (fold (\<lambda>j. setCell r (c + j) (toCell (vs ! j))) [0..<n] g) r' c' =
     (if r' = r \<and> c \<le> c' \<and> c' < c + n then toCell (vs ! (c' - c)) else cellAt g r' c')"
proof (induction n)
  case 0
  then show ?case by auto
next
  case (Suc n)
  have "1 \<le> c + n" using assms(2) by simp
  from cellAt_setCell [OF assms(1) this] Suc show ?case
    by (auto simp: less_Suc_eq)
qed

lemma cellAt_setRowValues:
  assumes "1 \<le> r" "1 \<le> c"
  shows "cellAt (setRowValues r c vs g) r' c' =
     (if r' = r \<and> c \<le> c' \<and> c' < c + length vs then toCell (vs ! (c' - c)) else cellAt g r' c')"
  unfolding setRowValues_def by (rule cellAt_fold_setCell [OF assms])

lemma setValues_one_row:
  "length vs = nc \<Longrightarrow> setValues r c 1 nc [vs] g = (setRowValues r c vs g, None)"
  by (simp add: setValues_def)

lemma rowAt_deleteRow:
  assumes "1 \<le> r"
  shows "rowAt (deleteRow r g) r' = (if r' < r then rowAt g r' else rowAt g (Suc r'))"
  using assms
  by (auto simp: rowAt_def deleteRow_def nth_append min_def)

lemma cellAt_deleteRow:
  assumes "1 \<le> r"
  shows "cellAt (deleteRow r g) r' c = (if r' < r then cellAt g r' c else cellAt g (Suc r') c)"
  using assms by (simp add: cellAt_def rowAt_deleteRow)

text \<open>
  The rows past the last row with content and the cells past the last column with
  content are blank, and a blank cell reads as the empty string.
\<close>

lemma rev_dropWhile_split:
  "xs = rev (dropWhile P (rev xs)) @ rev (takeWhile P (rev xs))"
proof -
  have "rev (takeWhile P (rev xs) @ dropWhile P (rev xs)) = xs"
    by (simp only: takeWhile_dropWhile_id rev_rev_ident)
  then show ?thesis by (simp only: rev_append)
qed

lemma beyond_dropWhile:
  assumes "length (dropWhile P (rev xs)) \<le> i" "i < length xs"
  shows "P (xs ! i)"
proof -
  let ?d = "rev (dropWhile P (rev xs))" and ?t = "rev (takeWhile P (rev xs))"
  have xs: "xs = ?d @ ?t" by (rule rev_dropWhile_split)
  have "xs ! i = (?d @ ?t) ! i" using xs by simp
  also have "\<dots> = ?t ! (i - length ?d)" using assms(1) by (simp add: nth_append)
  finally have "xs ! i = ?t ! (i - length ?d)" .
  moreover have "i - length ?d < length ?t"
    using assms xs by (metis add_diff_inverse_nat length_append length_rev nat_add_left_cancel_less not_less)
  ultimately have "xs ! i \<in> set ?t" by (metis nth_mem)
  then show ?thesis by (auto dest: set_takeWhileD)
qed


lemma getLastRow_le: "getLastRow g \<le> length g"
  unfolding getLastRow_def by (metis length_dropWhile_le length_rev)

lemma rowAt_beyond: "getLastRow g < r \<Longrightarrow> rowBlank (rowAt g r)"
proof (cases "r \<le> length g")
  case True
  assume "getLastRow g < r"
  then have "length (dropWhile rowBlank (rev g)) \<le> r - 1" "r - 1 < length g"
    using True by (auto simp: getLastRow_def)
  from beyond_dropWhile [OF this] show ?thesis using True \<open>getLastRow g < r\<close>
    by (simp add: rowAt_def)
next
  case False
  then show ?thesis by (simp add: rowAt_def rowBlank_def)
qed

lemma cellOf_rowBlank: "rowBlank cs \<Longrightarrow> cellOf cs c = blank"
  by (auto simp: cellOf_def rowBlank_def list_all_length)

lemma cellAt_beyond_lastRow: "getLastRow g < r \<Longrightarrow> cellAt g r c = blank"
  by (simp add: cellAt_def cellOf_rowBlank rowAt_beyond)



lemma rowAt_cases: "rowAt g r = [] \<or> rowAt g r \<in> set g"
  by (auto simp: rowAt_def)


lemma getValue_blank: "cellAt g r c = blank \<Longrightarrow> getValue E g r c = JStr []"
  by (simp add: getValue_def eval1_def blank_def)






lemma rowAt_appendRow:
  "rowAt (appendRow vs g) r =
     (if r \<le> getLastRow g then rowAt g r
      else if r = Suc (getLastRow g) then map toCell vs else [])"
  using getLastRow_le [of g] by (auto simp: rowAt_def appendRow_def nth_append min_def)

section \<open>Creating a month sheet\<close>

text \<open>
  The header range \<open>A1:K1\<close> is eleven columns wide and the script gives it ten values,
  so the first write of \<open>createMonthSheet\<close> throws: the sheet has been inserted, and
  it stays empty.
\<close>

lemma layoutMonthSheet_throws:
  "layoutMonthSheet g = (g, Some (ServiceError
      ''The number of columns in the data does not match the number of columns in the range.''))"
  by (simp add: layoutMonthSheet_def setValues_def headerRow_def andThen_def)

lemma createMonthSheet_absent:
  assumes "getSheetByName ss nm = None"
  shows "createMonthSheet ss nm = (ss @ [\<lparr>getName = nm, grid = []\<rparr>], Inl (ServiceError
      ''The number of columns in the data does not match the number of columns in the range.''))"
  using assms
  by (simp add: createMonthSheet_def insertSheet_def layoutMonthSheet_throws onSheet_append_new)

lemma getOrCreateMonthSheet_missing:
  assumes "getMonthSheetName d = Inr nm" "getSheetByName ss nm = None"
  shows "getOrCreateMonthSheet ss d = (ss @ [\<lparr>getName = nm, grid = []\<rparr>], Inl rangeMismatch)"
  using assms
  by (simp add: getOrCreateMonthSheet_def createMonthSheet_absent rangeMismatch_def)

lemma getOrCreateMonthSheet_existing:
  assumes "getMonthSheetName d = Inr nm" "getSheetByName ss nm = Some sh"
  shows "getOrCreateMonthSheet ss d = (ss, Inr nm)"
  using assms by (simp add: getOrCreateMonthSheet_def)

lemma getOrCreateMonthSheet_invalid:
  "getOrCreateMonthSheet ss None =
     (ss, Inl (Error ''Invalid date parameter passed to getMonthSheetName: Invalid Date''))"
  by (simp add: getOrCreateMonthSheet_def getMonthSheetName_def)

lemma getMonthSheetName_nonempty: "getMonthSheetName d = Inr nm \<Longrightarrow> nm \<noteq> []"
  by (cases d) (auto simp: getMonthSheetName_def)

lemma february_name:
  "getMonthSheetName (timestampDate demoEnv ''15/02/2026 10:30:00'') = Inr ''February 2026''"
  by code_simp

lemma march: "getMonthSheetName (timestampDate demoEnv ''15/03/2026 10:30:00'') = Inr ''March 2026''"
  by code_simp

lemma sample_found: "getSheetByName sampleStore ''February 2026'' = Some sampleSheet"
  by (simp add: sampleStore_def sampleSheet_def getSheetByName_def)

text \<open>
  Claim C10. Asking for the sheet of a month key a second time, after a first request
  has found or inserted it, returns the sheet of that name and leaves the store as it
  is; the number of sheets of that name is one if there was none, and unchanged
  otherwise, so no duplicate is created. A request that finds the sheet changes nothing.
\<close>

theorem getOrCreateMonthSheet_idempotent:
  assumes "getMonthSheetName (Some d) = Inr nm"
    and "getOrCreateMonthSheet ss (Some d) = (ss1, r1)"
  shows "(\<exists>sh. getSheetByName ss1 nm = Some sh)
       \<and> getOrCreateMonthSheet ss1 (Some d) = (ss1, Inr nm)
       \<and> countSheets ss1 nm = max 1 (countSheets ss nm)
       \<and> (getSheetByName ss nm \<noteq> None \<longrightarrow> ss1 = ss \<and> r1 = Inr nm)"
proof (cases "getSheetByName ss nm")
  case None
  with assms have ss1: "ss1 = ss @ [\<lparr>getName = nm, grid = []\<rparr>]"
    by (simp add: getOrCreateMonthSheet_def createMonthSheet_absent)
  have found: "getSheetByName ss1 nm = Some \<lparr>getName = nm, grid = []\<rparr>"
    using None by (simp add: ss1 getSheetByName_append) (simp add: getSheetByName_def)
  have "filter (\<lambda>sh. getName sh = nm) ss = []"
    using None by (simp add: getSheetByName_None_filter)
  then have cnt: "countSheets ss1 nm = max 1 (countSheets ss nm)"
    by (simp add: countSheets_def ss1)
  show ?thesis
    using assms(1) found cnt None by (simp add: getOrCreateMonthSheet_def)
next
  case (Some sh)
  with assms have same: "ss1 = ss" "r1 = Inr nm"
    by (simp_all add: getOrCreateMonthSheet_def)
  have "filter (\<lambda>sh. getName sh = nm) ss \<noteq> []"
    using Some by (simp flip: getSheetByName_None_filter)
  then have "1 \<le> countSheets ss nm"
    by (cases "filter (\<lambda>sh. getName sh = nm) ss") (simp_all add: countSheets_def)
  then show ?thesis
    using assms(1) Some same by (simp add: getOrCreateMonthSheet_def max_def)
qed

text \<open>
  The first request for February 2026 on the empty store inserts the sheet (and raises
  on the header write); the second returns it.
\<close>

theorem getOrCreateMonthSheet_idempotent_witness:
  "getMonthSheetName (Some february) = Inr ''February 2026''
   \<and> getOrCreateMonthSheet [] (Some february) =
       ([\<lparr>getName = ''February 2026'', grid = []\<rparr>], Inl (ServiceError
      ''The number of columns in the data does not match the number of columns in the range.''))
   \<and> getOrCreateMonthSheet [\<lparr>getName = ''February 2026'', grid = []\<rparr>] (Some february) =
       ([\<lparr>getName = ''February 2026'', grid = []\<rparr>], Inr ''February 2026'')
   \<and> countSheets [\<lparr>getName = ''February 2026'', grid = []\<rparr>] ''February 2026'' = 1"
proof -
  have n: "getMonthSheetName (Some february) = Inr ''February 2026''" by code_simp
  have g: "getOrCreateMonthSheet [] (Some february) =
       ([\<lparr>getName = ''February 2026'', grid = []\<rparr>], Inl (ServiceError
      ''The number of columns in the data does not match the number of columns in the range.''))"
    using createMonthSheet_absent [of "[]" "''February 2026''"]
    by (simp add: getOrCreateMonthSheet_def n getSheetByName_def)
  have c: "max 1 (countSheets [] ''February 2026'') = 1" by (simp add: countSheets_def)
  from getOrCreateMonthSheet_idempotent [OF n g] c n g show ?thesis by simp
qed

section \<open>Requests\<close>


lemma doGet_update:
  "p_action P = Some ''update'' \<Longrightarrow>
     doGet E ss P = (case doUpdate E ss P of (ss1, r) \<Rightarrow> (ss1, Inr r))"
  by (simp add: doGet_def Let_def paramStr_def)

lemma doGet_addEntry:
  "p_action P = Some ''addEntry'' \<Longrightarrow>
     doGet E ss P = (case doAddEntry E ss P of (ss1, r) \<Rightarrow> (ss1, Inr r))"
  by (simp add: doGet_def Let_def paramStr_def)



lemma doGet_getStats:
  assumes "p_action P = Some ''getStats''" "getSheetByName ss (requestSheetName E P) = Some sh"
  shows "doGet E ss P = (ss, getStatsData E (Some sh))"
  using assms by (simp add: doGet_def Let_def paramStr_def)

lemma length_rowValues: "length (rowValues E P ts) = 6"
  by (simp add: rowValues_def)




section \<open>Malformed timestamps\<close>

lemma timestampDate_malformed:
  "matchTimestamp ts = None \<Longrightarrow> parseDate E ts = None \<Longrightarrow> timestampDate E ts = None"
  by (simp add: timestampDate_def)

lemma doAddEntry_malformed:
  assumes "timestampDate E ts = None" "p_timestamp P = Some ts"
  shows "\<exists>m. doAddEntry E ss P = (ss, err m)"
  using assms by (simp add: doAddEntry_def getOrCreateMonthSheet_invalid err_def)

lemma doUpdate_malformed:
  assumes "timestampDate E ts = None" "p_timestamp P = Some ts"
  shows "\<exists>m. doUpdate E ss P = (ss, err m)"
  using assms
  by (simp add: doUpdate_def Let_def getMonthSheetName_def err_def split: option.split)

lemma doPost_malformed:
  assumes "timestampDate E ts = None" "d_timestamp D = JStr ts"
  shows "\<exists>m. doPost E ss (Some D) = (ss, err m)"
  using assms by (simp add: doPost_def getOrCreateMonthSheet_invalid err_def)

text \<open>
  Claim C6. A timestamp that neither matches the day/month/year pattern nor parses as a
  date on its own is refused by every write: \<open>addEntry\<close>, \<open>update\<close> and the POST
  path answer with status \<open>error\<close>, and the store is returned as it was, so no row is
  appended, overwritten or deleted and no sheet is created.
\<close>

theorem malformed_timestamp_rejected:
  assumes "matchTimestamp ts = None" and "parseDate E ts = None"
  shows "(p_action P = Some ''addEntry'' \<and> p_timestamp P = Some ts \<longrightarrow>
            (\<exists>m. doGet E ss P = (ss, Inr (Message error m))))
       \<and> (p_action P = Some ''update'' \<and> p_timestamp P = Some ts \<longrightarrow>
            (\<exists>m. doGet E ss P = (ss, Inr (Message error m))))
       \<and> (d_timestamp D = JStr ts \<longrightarrow>
            (\<exists>m. doPost E ss (Some D) = (ss, Message error m)))"
proof -
  have inv: "timestampDate E ts = None"
    using assms by (rule timestampDate_malformed)
  have a: "\<exists>m. doGet E ss P = (ss, Inr (Message error m))"
    if "p_action P = Some ''addEntry''" "p_timestamp P = Some ts"
    using doAddEntry_malformed [OF inv that(2), of ss] doGet_addEntry [OF that(1), of E ss]
    by (auto simp: err_def)
  have u: "\<exists>m. doGet E ss P = (ss, Inr (Message error m))"
    if "p_action P = Some ''update''" "p_timestamp P = Some ts"
    using doUpdate_malformed [OF inv that(2), of ss] doGet_update [OF that(1), of E ss]
    by (auto simp: err_def)
  have p: "\<exists>m. doPost E ss (Some D) = (ss, Message error m)" if "d_timestamp D = JStr ts"
    using doPost_malformed [OF inv that, of ss] by (simp add: err_def)
  from a u p show ?thesis by blast
qed

text \<open>
  The timestamp \<open>yesterday\<close> in an \<open>addEntry\<close> request.
\<close>

theorem malformed_timestamp_rejected_witness:
  "matchTimestamp ''yesterday'' = None \<and> parseDate demoEnv ''yesterday'' = None
   \<and> p_action badAddRequest = Some ''addEntry'' \<and> p_timestamp badAddRequest = Some ''yesterday''
   \<and> (\<exists>m. doGet demoEnv sampleStore badAddRequest = (sampleStore, Inr (Message error m)))"
proof -
  have m: "matchTimestamp ''yesterday'' = None" by code_simp
  have p: "parseDate demoEnv ''yesterday'' = None" by (simp add: demoEnv_def)
  have a: "p_action badAddRequest = Some ''addEntry''"
    by (simp add: badAddRequest_def noParams_def)
  have t: "p_timestamp badAddRequest = Some ''yesterday''"
    by (simp add: badAddRequest_def noParams_def)
  from malformed_timestamp_rejected [OF m p, where P = badAddRequest and ss = sampleStore] a t
  have "\<exists>m. doGet demoEnv sampleStore badAddRequest = (sampleStore, Inr (Message error m))"
    by simp
  with m p a t show ?thesis by blast
qed

section \<open>Deleting a row\<close>



section \<open>Updating in place\<close>

text \<open>
  Claim C4. An update whose new timestamp gives the month of the sheet the row is on
  overwrites the six cells A to F of that row with the new values. The row index and
  the sheet are the same, the cells of the row from column G on are unchanged, every
  other row of the sheet is unchanged, and so is every other sheet.
\<close>

theorem update_in_place:
  assumes "p_action P = Some ''update''" and "p_timestamp P = Some ts"
    and "parseIntOf (p_row P) = Some r" and "3 \<le> r"
    and "p_sheetName P = Some nm" and "getSheetByName ss nm = Some sh"
    and "getMonthSheetName (timestampDate E ts) = Inr nm"
  shows "\<exists>ss' sh'. doGet E ss P = (ss', Inr (Message success (''Updated row '' @ showInt r)))
       \<and> getSheetByName ss' nm = Some sh'
       \<and> map getName ss' = map getName ss
       \<and> (\<forall>c. 1 \<le> c \<and> c \<le> 6 \<longrightarrow>
             cellAt (grid sh') (nat r) c = toCell (rowValues E P ts ! (c - 1)))
       \<and> (\<forall>c. 6 < c \<longrightarrow> cellAt (grid sh') (nat r) c = cellAt (grid sh) (nat r) c)
       \<and> (\<forall>k c. k \<noteq> nat r \<longrightarrow> cellAt (grid sh') k c = cellAt (grid sh) k c)
       \<and> (\<forall>n. n \<noteq> nm \<longrightarrow> getSheetByName ss' n = getSheetByName ss n)"
proof -
  let ?g = "setRowValues (nat r) (Suc 0) (rowValues E P ts) (grid sh)"
  let ?ss' = "onSheet nm (\<lambda>_. ?g) ss"
  let ?sh' = "sh\<lparr>grid := ?g\<rparr>"
  have ne: "nm \<noteq> []" using assms(7) by (rule getMonthSheetName_nonempty)
  have sv: "setValues (nat r) (Suc 0) (Suc 0) 6 [rowValues E P ts] (grid sh) = (?g, None)"
    using setValues_one_row [OF length_rowValues, of "nat r" "Suc 0" E P ts "grid sh"] by simp
  have upd: "doUpdate E ss P = (?ss', ok (''Updated row '' @ showInt r))"
    using assms ne
    by (simp add: doUpdate_def Let_def invalidRow_def paramStr_def rowNumber_def sv showNum_def)
  have found: "getSheetByName ?ss' nm = Some ?sh'"
    using assms(6) by (simp add: getSheetByName_onSheet)
  have r1: "1 \<le> nat r" using assms(4) by linarith
  have cells: "cellAt ?g k c =
      (if k = nat r \<and> Suc 0 \<le> c \<and> c < 7 then toCell (rowValues E P ts ! (c - Suc 0))
       else cellAt (grid sh) k c)" for k c
    using cellAt_setRowValues [OF r1, of "Suc 0" "rowValues E P ts" "grid sh" k c]
    by (simp add: length_rowValues)
  have c1: "\<forall>c. 1 \<le> c \<and> c \<le> 6 \<longrightarrow>
             cellAt (grid ?sh') (nat r) c = toCell (rowValues E P ts ! (c - 1))"
    by (auto simp: cells)
  have c2: "\<forall>c. 6 < c \<longrightarrow> cellAt (grid ?sh') (nat r) c = cellAt (grid sh) (nat r) c"
    by (auto simp: cells)
  have c3: "\<forall>k c. k \<noteq> nat r \<longrightarrow> cellAt (grid ?sh') k c = cellAt (grid sh) k c"
    by (auto simp: cells)
  have others: "\<forall>n. n \<noteq> nm \<longrightarrow> getSheetByName ?ss' n = getSheetByName ss n"
    by (simp add: getSheetByName_onSheet)
  have names: "map getName ?ss' = map getName ss"
    by (rule names_onSheet)
  have "doGet E ss P = (?ss', Inr (Message success (''Updated row '' @ showInt r)))"
    by (simp add: doGet_update [OF assms(1)] upd ok_def)
  with found names c1 c2 c3 others show ?thesis by blast
qed

text \<open>
  Updating row 3 of the sample sheet to another day of February.
\<close>

theorem update_in_place_witness:
  "p_action updateRequest = Some ''update''
   \<and> p_timestamp updateRequest = Some ''20/02/2026 09:00:00''
   \<and> parseIntOf (p_row updateRequest) = Some 3
   \<and> p_sheetName updateRequest = Some ''February 2026''
   \<and> getSheetByName sampleStore ''February 2026'' = Some sampleSheet
   \<and> getMonthSheetName (timestampDate demoEnv ''20/02/2026 09:00:00'') = Inr ''February 2026''
   \<and> (\<exists>ss' sh'. doGet demoEnv sampleStore updateRequest
           = (ss', Inr (Message success (''Updated row '' @ showInt 3)))
       \<and> getSheetByName ss' ''February 2026'' = Some sh'
       \<and> map getName ss' = map getName sampleStore
       \<and> cellAt (grid sh') 3 3 = Val (JNum (Fin 12))
       \<and> cellAt (grid sh') 4 3 = cellAt (grid sampleSheet) 4 3)"
proof -
  have a: "p_action updateRequest = Some ''update''"
    by (simp add: updateRequest_def noParams_def)
  have t: "p_timestamp updateRequest = Some ''20/02/2026 09:00:00''"
    by (simp add: updateRequest_def noParams_def)
  have r: "parseIntOf (p_row updateRequest) = Some 3" by code_simp
  have n: "p_sheetName updateRequest = Some ''February 2026''"
    by (simp add: updateRequest_def noParams_def)
  have m: "getMonthSheetName (timestampDate demoEnv ''20/02/2026 09:00:00'') = Inr ''February 2026''"
    by code_simp
  have v: "toCell (rowValues demoEnv updateRequest ''20/02/2026 09:00:00'' ! 2) = Val (JNum (Fin 12))"
    by code_simp
  from update_in_place [OF a t r _ n sample_found m]
  obtain ss' sh' where res: "doGet demoEnv sampleStore updateRequest
           = (ss', Inr (Message success (''Updated row '' @ showInt 3)))"
      "getSheetByName ss' ''February 2026'' = Some sh'"
      "map getName ss' = map getName sampleStore"
    and new: "\<forall>c. 1 \<le> c \<and> c \<le> 6 \<longrightarrow> cellAt (grid sh') (nat 3) c
        = toCell (rowValues demoEnv updateRequest ''20/02/2026 09:00:00'' ! (c - 1))"
    and old: "\<forall>k c. k \<noteq> nat 3 \<longrightarrow> cellAt (grid sh') k c = cellAt (grid sampleSheet) k c"
    by auto
  from new have c3: "cellAt (grid sh') 3 3 = Val (JNum (Fin 12))"
    using v by (simp add: numeral_eq_Suc)
  from old have c4: "cellAt (grid sh') 4 3 = cellAt (grid sampleSheet) 4 3" by simp
  from a t r n sample_found m res c3 c4 show ?thesis by blast
qed

section \<open>Canonical timestamps\<close>

text \<open>
  The groups of a match are runs of two or four digits, so \<open>parseInt\<close> reads each and
  the date built from them is valid: \<open>toISO\<close> never throws.
\<close>

lemma isDigit_digitVal: "isDigit c \<Longrightarrow> \<exists>d. digitVal 10 c = Some d \<and> d < 10"
  by (auto simp: isDigit_def digitVal_def Let_def)

lemma isDigit_not_space: "isDigit c \<Longrightarrow> \<not> isSpace c"
  by (auto simp: isDigit_def isSpace_def)

lemma isDigit_not_sign: "isDigit c \<Longrightarrow> c \<noteq> CHR ''-'' \<and> c \<noteq> CHR ''+'' \<and> c \<noteq> CHR ''x'' \<and> c \<noteq> CHR ''X''"
  by (auto simp: isDigit_def)

lemma leadDigits_all:
  "list_all isDigit s \<Longrightarrow>
     length (leadDigits 10 s) = length s \<and> list_all (\<lambda>d. d < 10) (leadDigits 10 s)"
proof (induction s)
  case Nil
  then show ?case by simp
next
  case (Cons c s)
  then obtain d where "digitVal 10 c = Some d" "d < 10"
    using isDigit_digitVal [of c] by auto
  with Cons show ?case by simp
qed

lemma foldl_digits_bound:
  "list_all (\<lambda>d. d < 10) ds \<Longrightarrow>
     foldl (\<lambda>a d. a * 10 + d) (a :: nat) ds < (a + 1) * 10 ^ length ds"
proof (induction ds arbitrary: a)
  case Nil
  then show ?case by simp
next
  case (Cons d ds)
  then have "foldl (\<lambda>a d. a * 10 + d) (a * 10 + d) ds < (a * 10 + d + 1) * 10 ^ length ds"
    by simp
  also have "\<dots> \<le> ((a + 1) * 10) * 10 ^ length ds"
    using Cons.prems by (intro mult_right_mono) auto
  finally show ?case by (simp add: algebra_simps)
qed

lemma parseInt_digits:
  assumes "list_all isDigit s" "s \<noteq> []"
  shows "\<exists>v. parseInt s = Some v \<and> 0 \<le> v \<and> v < 10 ^ length s"
proof -
  obtain c r where s: "s = c # r" using assms(2) by (cases s) auto
  have c: "isDigit c" using assms(1) s by simp
  have t: "dropWhile isSpace s = s" using c s isDigit_not_space by simp
  have nohex: "(case s of a # b # r \<Rightarrow> a = CHR ''0'' \<and> (b = CHR ''x'' \<or> b = CHR ''X'') | _ \<Rightarrow> False) = False"
  proof (cases r)
    case Nil
    then show ?thesis by (simp add: s)
  next
    case (Cons b r')
    then have "isDigit b" using assms(1) s by simp
    then show ?thesis using isDigit_not_sign [of b] by (simp add: s Cons)
  qed
  have ld: "length (leadDigits 10 s) = length s" "list_all (\<lambda>d. d < 10) (leadDigits 10 s)"
    using leadDigits_all [OF assms(1)] by auto
  have ne: "leadDigits 10 s \<noteq> []" using ld(1) assms(2) by auto
  have b: "digitsValue 10 (leadDigits 10 s) < 10 ^ length s"
    using foldl_digits_bound [OF ld(2), of 0] by (simp add: digitsValue_def ld(1))
  have "parseInt s = Some (int (digitsValue 10 (leadDigits 10 s)))"
    using isDigit_not_sign [OF c] ne nohex
    by (simp add: parseInt_def t Let_def) (simp add: s)
  moreover have "int (digitsValue 10 (leadDigits 10 s)) < 10 ^ length s"
    using b by (metis of_nat_less_iff of_nat_numeral of_nat_power)
  ultimately show ?thesis by simp
qed

lemma takeDigits_Some:
  "takeDigits n s = Some (g, r) \<Longrightarrow> length g = n \<and> list_all isDigit g"
  by (auto simp: takeDigits_def split: if_splits)

lemma matchHere_groups: "matchHere s = Some parts \<Longrightarrow> digitGroups parts"
  by (auto simp: matchHere_def digitGroups_def bind_eq_Some_conv dest!: takeDigits_Some)

lemma matchTimestamp_groups: "matchTimestamp s = Some parts \<Longrightarrow> digitGroups parts"
  by (induction s) (auto split: option.splits dest: matchHere_groups)

lemma daysFromCivil_bound:
  assumes "0 \<le> y" "y \<le> 10100" "1 \<le> m" "m \<le> 12"
  shows "- 900000 \<le> daysFromCivil y m 1 \<and> daysFromCivil y m 1 \<le> 4000000"
proof -
  define y' where "y' = (if m \<le> 2 then y - 1 else y)"
  define era where "era = y' div 400"
  define yoe where "yoe = y' - era * 400"
  define doy where "doy = (153 * (if m > 2 then m - 3 else m + 9) + 2) div 5 + 1 - 1"
  define doe where "doe = yoe * 365 + yoe div 4 - yoe div 100 + doy"
  have y'b: "- 1 \<le> y'" "y' \<le> 10100" using assms by (auto simp: y'_def)
  have erab: "- 1 \<le> era" "era \<le> 25" using y'b by (auto simp: era_def)
  have yoeb: "0 \<le> yoe" "yoe \<le> 399"
    unfolding yoe_def era_def by (simp_all add: minus_mult_div_eq_mod)
  have doyb: "0 \<le> doy" "doy \<le> 400" using assms by (auto simp: doy_def)
  have doeb: "0 \<le> doe" "doe \<le> 150000" using yoeb doyb by (auto simp: doe_def)
  have "daysFromCivil y m 1 = era * 146097 + doe - 719468"
    by (simp add: daysFromCivil_def Let_def y'_def era_def yoe_def doy_def doe_def)
  then show ?thesis using erab doeb by simp
qed

lemma newDate_valid:
  assumes "0 \<le> y" "y \<le> 9999" "- 1 \<le> m" "m \<le> 99" "0 \<le> d" "d \<le> 99"
    "0 \<le> h" "h \<le> 99" "0 \<le> mi" "mi \<le> 99" "0 \<le> s" "s \<le> 99"
  shows "\<exists>dt. newDate (Some y) (Some m) (Some d) (Some h) (Some mi) (Some s) = Some dt"
proof -
  define yr where "yr = (if 0 \<le> y \<and> y \<le> 99 then 1900 + y else y)"
  have yrb: "0 \<le> yr" "yr \<le> 9999" using assms by (auto simp: yr_def)
  have mb: "- 1 \<le> m div 12" "m div 12 \<le> 8" using assms by auto
  have "0 \<le> yr + m div 12 \<or> yr + m div 12 = - 1" using yrb mb by linarith
  have yb: "0 \<le> yr + m div 12" "yr + m div 12 \<le> 10100"
    using yrb mb assms by (auto simp: yr_def)
  have mm: "1 \<le> m mod 12 + 1" "m mod 12 + 1 \<le> 12"
    by (simp_all add: add1_zle_eq)
  define D where "D = daysFromCivil (yr + m div 12) (m mod 12 + 1) 1"
  from daysFromCivil_bound [OF yb mm]
  have db: "- 900000 \<le> D" "D \<le> 4000000" by (auto simp: D_def)
  define t where "t = (D + d - 1) * 86400 + h * 3600 + mi * 60 + s"
  have "\<bar>t\<bar> \<le> 8640000000000"
    using db assms unfolding t_def by (simp add: algebra_simps abs_le_iff)
  then show ?thesis by (simp add: newDate_def Let_def yr_def t_def D_def)
qed

lemma dateFromParts_valid:
  assumes "digitGroups parts"
  shows "\<exists>dt. dateFromParts parts = Some dt"
proof -
  from assms obtain p1 p2 p3 p4 p5 p6 where parts: "parts = [p1, p2, p3, p4, p5, p6]"
    and two: "list_all (\<lambda>p. length p = 2 \<and> list_all isDigit p) [p1, p2, p4, p5, p6]"
    and four: "length p3 = 4" "list_all isDigit p3"
    by (auto simp: digitGroups_def split: list.splits)
  have p2d: "\<exists>v. parseInt p = Some v \<and> 0 \<le> v \<and> v \<le> 99"
    if "length p = 2" "list_all isDigit p" for p
  proof -
    have "p \<noteq> []" using that(1) by auto
    from parseInt_digits [OF that(2) this] that(1) show ?thesis by auto
  qed
  have "p3 \<noteq> []" using four(1) by auto
  from parseInt_digits [OF four(2) this] four(1)
  obtain y where y: "parseInt p3 = Some y" "0 \<le> y" "y \<le> 9999" by auto
  from two p2d [of p1] obtain d where d: "parseInt p1 = Some d" "0 \<le> d" "d \<le> 99" by auto
  from two p2d [of p2] obtain m where m: "parseInt p2 = Some m" "0 \<le> m" "m \<le> 99" by auto
  from two p2d [of p4] obtain h where h: "parseInt p4 = Some h" "0 \<le> h" "h \<le> 99" by auto
  from two p2d [of p5] obtain mi where mi: "parseInt p5 = Some mi" "0 \<le> mi" "mi \<le> 99" by auto
  from two p2d [of p6] obtain s where s: "parseInt p6 = Some s" "0 \<le> s" "s \<le> 99" by auto
  have "- 1 \<le> m - 1" "m - 1 \<le> 99" using m by auto
  from newDate_valid [OF y(2,3) this d(2,3) h(2,3) mi(2,3) s(2,3)]
  show ?thesis by (simp add: dateFromParts_def parts y d m h mi s)
qed

lemma toISO_returns: "\<exists>t. toISO E v = Inr t"
proof (cases "\<exists>d. v = JDate d")
  case True
  then show ?thesis by (auto simp: toISO_def toISOString_def)
next
  case False
  show ?thesis
  proof (cases "matchTimestamp (String E v)")
    case None
    with False show ?thesis
      by (cases v) (auto simp: toISO_def toISOString_def Let_def split: option.splits)
  next
    case (Some parts)
    from dateFromParts_valid [OF matchTimestamp_groups [OF Some]]
    obtain dt where "dateFromParts parts = Some dt" by auto
    with Some False show ?thesis
      by (cases v) (auto simp: toISO_def toISOString_def Let_def)
  qed
qed


section \<open>The transaction list\<close>

















section \<open>Appending and deleting again\<close>











section \<open>Reading a month that has no sheet\<close>

text \<open>
  \<open>getAllData\<close>, \<open>getTransactions\<close> and \<open>getStats\<close> answer with the empty data; the
  default action is not in the guard and calls \<open>getMonthlyTotals\<close> on \<open>null\<close>.
\<close>

lemma reads_of_missing_month:
  assumes "getSheetByName ss (requestSheetName E P) = None"
  shows "p_action P = Some ''getAllData'' \<or> p_action P = Some ''getTransactions''
           \<or> p_action P = Some ''getStats'' \<Longrightarrow> doGet E ss P = (ss, Inr emptyData)"
    and "p_action P = None \<Longrightarrow> doGet E ss P = (ss, Inl nullSheet)"
  using assms by (auto simp: doGet_def Let_def paramStr_def getMonthlyTotals_def)

text \<open>
  Claim C2, at the input where the script departs from it: the default totals action
  for January 2030 on a store with no sheet of that month does not answer with zero
  totals; \<open>doGet\<close> ends with an uncaught \<open>TypeError\<close>.
\<close>

theorem default_totals_of_missing_month:
  "doGet demoEnv [] (noParams\<lparr>p_year := Some ''2030'', p_month := Some ''1''\<rparr>)
     = ([], Inl (TypeError ''Cannot read properties of null''))"
proof -
  have "p_action (noParams\<lparr>p_year := Some ''2030'', p_month := Some ''1''\<rparr>) = None"
    by (simp add: noParams_def)
  moreover have "getSheetByName []
      (requestSheetName demoEnv (noParams\<lparr>p_year := Some ''2030'', p_month := Some ''1''\<rparr>)) = None"
    by (simp add: getSheetByName_def)
  ultimately show ?thesis by (simp add: reads_of_missing_month(2) nullSheet_def)
qed

section \<open>Moving a row to another month\<close>

text \<open>
  When every timestamp cell of a grid is a plain value, the transactions are the rows
  from the third on whose timestamp cell is truthy, so deleting one of them leaves
  exactly one transaction fewer.
\<close>

lemma plain_timestamp_value:
  assumes "plainTimestamps g"
  shows "getValue E g r 1 = plainValue (cellAt g r 1)"
proof -
  from rowAt_cases [of g r] have "\<exists>v. cellAt g r 1 = Val v"
  proof
    assume "rowAt g r = []"
    then show ?thesis by (simp add: cellAt_def cellOf_def blank_def)
  next
    assume "rowAt g r \<in> set g"
    with assms have "case cellOf (rowAt g r) 1 of Val v \<Rightarrow> True | Formula f \<Rightarrow> False"
      by (auto simp: plainTimestamps_def list_all_iff)
    then show ?thesis by (cases "cellOf (rowAt g r) 1") (auto simp: cellAt_def)
  qed
  then show ?thesis by (auto simp: getValue_def eval1_def plainValue_def)
qed

lemma upt_split: "a \<le> b \<Longrightarrow> b \<le> c \<Longrightarrow> [a..<c] = [a..<b] @ [b..<c]"
  by (metis le_Suc_ex upt_add_eq_append)

lemma dataRows_plain:
  assumes "plainTimestamps g"
  shows "dataRows E g = filter (\<lambda>r. hasTimestamp (rowAt g r)) [3..<Suc (length g)]"
proof -
  let ?Q = "\<lambda>r. hasTimestamp (rowAt g r)"
  have q: "truthy (getValue E g r 1) = ?Q r" for r
    by (simp only: plain_timestamp_value [OF assms] hasTimestamp_def cellAt_def)
  have le: "getLastRow g \<le> length g" by (rule getLastRow_le)
  have split: "[3..<Suc (length g)] = [3..<Suc (getLastRow g)] @ [max 3 (Suc (getLastRow g))..<Suc (length g)]"
  proof (cases "3 \<le> Suc (getLastRow g)")
    case True
    then have "max 3 (Suc (getLastRow g)) = Suc (getLastRow g)" by simp
    moreover have "[3..<Suc (length g)] = [3..<Suc (getLastRow g)] @ [Suc (getLastRow g)..<Suc (length g)]"
      using True le by (intro upt_split) auto
    ultimately show ?thesis by (simp only:)
  next
    case False
    then show ?thesis by (simp add: max_def del: upt_Suc)
  qed
  have "filter ?Q [max 3 (Suc (getLastRow g))..<Suc (length g)] = []"
  proof -
    have "\<not> ?Q r" if "r \<in> set [max 3 (Suc (getLastRow g))..<Suc (length g)]" for r
    proof -
      from that have "getLastRow g < r" by auto
      from cellAt_beyond_lastRow [OF this, of 1] show ?thesis
        by (simp add: hasTimestamp_def cellAt_def plainValue_def blank_def)
    qed
    then show ?thesis by (simp add: filter_empty_conv del: upt_Suc)
  qed
  then show ?thesis
    unfolding dataRows_def q by (subst split) (simp del: upt_Suc)
qed

lemma rows_from_3: "map (rowAt g) [3..<Suc (length g)] = drop 2 g"
proof (rule nth_equalityI)
  show "length (map (rowAt g) [3..<Suc (length g)]) = length (drop 2 g)" by auto
next
  fix i assume "i < length (map (rowAt g) [3..<Suc (length g)])"
  then have i: "i + 2 < length g" by (auto simp del: upt_Suc)
  then have "map (rowAt g) [3..<Suc (length g)] ! i = rowAt g (3 + i)"
    by (simp del: upt_Suc)
  also have "\<dots> = g ! (i + 2)" using i by (simp add: rowAt_def numeral_eq_Suc)
  finally show "map (rowAt g) [3..<Suc (length g)] ! i = drop 2 g ! i"
    using i by (simp add: add.commute)
qed

lemma count_dataRows:
  assumes "plainTimestamps g"
  shows "length (dataRows E g) = length (filter hasTimestamp (drop 2 g))"
proof -
  have "length (filter (\<lambda>r. hasTimestamp (rowAt g r)) [3..<Suc (length g)])
      = length (filter hasTimestamp (map (rowAt g) [3..<Suc (length g)]))"
    by (simp add: filter_map comp_def del: upt_Suc)
  then show ?thesis by (simp only: dataRows_plain [OF assms] rows_from_3)
qed

lemma filter_remove_nth:
  assumes "i < length xs"
  shows "length (filter Q (take i xs @ drop (Suc i) xs)) + (if Q (xs ! i) then 1 else 0)
       = length (filter Q xs)"
proof -
  have "xs = take i xs @ xs ! i # drop (Suc i) xs" using assms by (rule id_take_nth_drop)
  then have "filter Q xs = filter Q (take i xs) @ filter Q [xs ! i] @ filter Q (drop (Suc i) xs)"
    by (metis append_Cons append_Nil filter_append)
  then show ?thesis by simp
qed

lemma drop2_deleteRow:
  assumes "3 \<le> r"
  shows "drop 2 (deleteRow r g) = take (r - 3) (drop 2 g) @ drop (Suc (r - 3)) (drop 2 g)"
proof -
  have "r - 1 - 2 = r - 3" by simp
  then have a: "drop 2 (take (r - 1) g) = take (r - 3) (drop 2 g)"
    by (simp only: drop_take)
  have "Suc (r - 3) + 2 = r" using assms by simp
  then have b: "drop r g = drop (Suc (r - 3)) (drop 2 g)" by (simp only: drop_drop)
  have "2 \<le> length (take (r - 1) g) \<or> drop r g = []" using assms by (auto simp: min_def)
  then have "drop 2 (take (r - 1) g @ drop r g) = drop 2 (take (r - 1) g) @ drop r g"
    by auto
  then show ?thesis by (simp only: deleteRow_def a b)
qed

lemma plainTimestamps_deleteRow: "plainTimestamps g \<Longrightarrow> plainTimestamps (deleteRow r g)"
  by (auto simp: plainTimestamps_def deleteRow_def list_all_iff dest: in_set_takeD in_set_dropD)

lemma count_after_delete:
  assumes "plainTimestamps g" "3 \<le> r" "r \<le> length g" "truthy (getValue E g r 1)"
  shows "length (dataRows E (deleteRow r g)) + 1 = length (dataRows E g)"
proof -
  have i: "r - 3 < length (drop 2 g)" using assms(2,3) by simp
  have "2 + (r - 3) = r - 1" "2 \<le> length g" using assms(2,3) by auto
  then have "drop 2 g ! (r - 3) = g ! (r - 1)" by (simp only: nth_drop)
  then have "drop 2 g ! (r - 3) = rowAt g r" using assms(2,3) by (simp add: rowAt_def)
  moreover have "hasTimestamp (rowAt g r)"
    using assms(4) by (simp only: plain_timestamp_value [OF assms(1)] hasTimestamp_def cellAt_def)
  ultimately have q: "hasTimestamp (drop 2 g ! (r - 3))" by simp
  from filter_remove_nth [OF i, of hasTimestamp] q
  have "length (filter hasTimestamp (drop 2 (deleteRow r g))) + 1
      = length (filter hasTimestamp (drop 2 g))"
    by (simp add: drop2_deleteRow [OF assms(2)])
  then show ?thesis
    by (simp only: count_dataRows [OF assms(1)]
        count_dataRows [OF plainTimestamps_deleteRow [OF assms(1)]])
qed

text \<open>
  An update whose new timestamp falls in another month, when that month has a sheet
  already: the answer is the message \<open>Moved from\<close> the old sheet \<open>to\<close> the new one, the
  new values are the row below the last row of the target sheet, whose other rows are
  kept, the source sheet has lost the row, and no other sheet has changed.
\<close>

lemma move_to_existing_month:
  assumes "p_action P = Some ''update''" and "p_timestamp P = Some ts"
    and "parseIntOf (p_row P) = Some r" and "3 \<le> r"
    and "p_sheetName P = Some src" and "src \<noteq> []" and "getSheetByName ss src = Some sh"
    and "getMonthSheetName (timestampDate E ts) = Inr dst" and "dst \<noteq> src"
    and "getSheetByName ss dst = Some th"
  shows "\<exists>ss' sh' th'.
           doGet E ss P = (ss', Inr (Message success (''Moved from '' @ src @ '' to '' @ dst)))
         \<and> getSheetByName ss' dst = Some th'
         \<and> rowAt (grid th') (Suc (getLastRow (grid th))) = map toCell (rowValues E P ts)
         \<and> (\<forall>k. k \<le> getLastRow (grid th) \<longrightarrow> rowAt (grid th') k = rowAt (grid th) k)
         \<and> getSheetByName ss' src = Some sh'
         \<and> grid sh' = deleteRow (nat r) (grid sh)
         \<and> (plainTimestamps (grid sh) \<and> nat r \<le> length (grid sh)
              \<and> truthy (getValue E (grid sh) (nat r) 1)
             \<longrightarrow> length (dataRows E (grid sh')) + 1 = length (dataRows E (grid sh)))
         \<and> (\<forall>n. n \<noteq> src \<and> n \<noteq> dst \<longrightarrow> getSheetByName ss' n = getSheetByName ss n)"
proof -
  let ?vs = "rowValues E P ts"
  let ?ss' = "onSheet src (deleteRow (nat r)) (onSheet dst (appendRow ?vs) ss)"
  let ?sh' = "sh\<lparr>grid := deleteRow (nat r) (grid sh)\<rparr>"
  let ?th' = "th\<lparr>grid := appendRow ?vs (grid th)\<rparr>"
  have upd: "doUpdate E ss P = (?ss', ok (''Moved from '' @ src @ '' to '' @ dst))"
    using assms
    by (simp add: doUpdate_def Let_def invalidRow_def paramStr_def rowNumber_def
        getOrCreateMonthSheet_existing [OF assms(8,10)])
  have res: "doGet E ss P = (?ss', Inr (Message success (''Moved from '' @ src @ '' to '' @ dst)))"
    by (simp add: doGet_update [OF assms(1)] upd ok_def)
  have t: "getSheetByName ?ss' dst = Some ?th'"
    using assms(9,10) by (simp add: getSheetByName_onSheet)
  have s: "getSheetByName ?ss' src = Some ?sh'"
    using assms(7,9) by (simp add: getSheetByName_onSheet)
  have new: "rowAt (grid ?th') (Suc (getLastRow (grid th))) = map toCell ?vs"
    by (simp add: rowAt_appendRow)
  have old: "\<forall>k. k \<le> getLastRow (grid th) \<longrightarrow> rowAt (grid ?th') k = rowAt (grid th) k"
    by (simp add: rowAt_appendRow)
  have r3: "3 \<le> nat r" using assms(4) by simp
  have cnt: "plainTimestamps (grid sh) \<and> nat r \<le> length (grid sh)
              \<and> truthy (getValue E (grid sh) (nat r) 1)
             \<longrightarrow> length (dataRows E (grid ?sh')) + 1 = length (dataRows E (grid sh))"
    using count_after_delete [OF _ r3, of "grid sh" E] by simp
  have others: "\<forall>n. n \<noteq> src \<and> n \<noteq> dst \<longrightarrow> getSheetByName ?ss' n = getSheetByName ss n"
    by (simp add: getSheetByName_onSheet)
  have g: "grid ?sh' = deleteRow (nat r) (grid sh)" by simp
  from res t new old s g cnt others show ?thesis by blast
qed

text \<open>
  When the month has no sheet, the sheet is inserted and its layout fails.
\<close>

lemma move_to_missing_month:
  assumes "p_timestamp P = Some ts" "parseIntOf (p_row P) = Some r" "3 \<le> r"
    "p_sheetName P = Some src" "src \<noteq> []" "getSheetByName ss src = Some sh"
    "getMonthSheetName (timestampDate E ts) = Inr dst" "dst \<noteq> src"
    "getSheetByName ss dst = None"
  shows "doUpdate E ss P = (ss @ [\<lparr>getName = dst, grid = []\<rparr>],
      err (''Update failed: '' @ exnToString rangeMismatch))"
  using assms
  by (simp add: doUpdate_def Let_def invalidRow_def paramStr_def
      getOrCreateMonthSheet_missing [OF assms(7,9)])

text \<open>
  Claim C3, at the input where the script departs from it: an update of row 3 of
  February 2026 to a timestamp in March 2026, when March has no sheet yet. The sheet
  for March is inserted and the header write throws; the answer has status \<open>error\<close>,
  nothing is appended and the row stays in February.
\<close>

theorem move_to_new_month_fails:
  "doGet demoEnv sampleStore moveRequest =
     (sampleStore @ [\<lparr>getName = ''March 2026'', grid = []\<rparr>],
      Inr (Message error (''Update failed: Exception: The number of columns in the data does not match the number of columns in the range.'')))"
proof -
  have a: "p_action moveRequest = Some ''update''" by (simp add: moveRequest_def noParams_def)
  have t: "p_timestamp moveRequest = Some ''15/03/2026 10:30:00''"
    by (simp add: moveRequest_def noParams_def)
  have r: "parseIntOf (p_row moveRequest) = Some 3" by code_simp
  have n: "p_sheetName moveRequest = Some ''February 2026''"
    by (simp add: moveRequest_def noParams_def)
  have s: "getSheetByName sampleStore ''February 2026''
      = Some \<lparr>getName = ''February 2026'', grid = sampleGrid\<rparr>"
    by (simp add: sampleStore_def getSheetByName_def)
  have m: "getSheetByName sampleStore ''March 2026'' = None"
    by (simp add: sampleStore_def getSheetByName_def)
  have "doUpdate demoEnv sampleStore moveRequest =
      (sampleStore @ [\<lparr>getName = ''March 2026'', grid = []\<rparr>],
       err (''Update failed: '' @ exnToString rangeMismatch))"
    by (rule move_to_missing_month [OF t r _ n _ s march _ m]) simp_all
  then show ?thesis
    by (simp add: doGet_update [OF a] err_def exnToString_def rangeMismatch_def)
qed

section \<open>The budget\<close>

text \<open>
  On a sheet whose cell I12 holds a budget \<open>b\<close> other than 0, whose cell J12 holds
  the budget formula and whose cell C2 holds the total of column C, the budget figure
  read is \<open>parsePct\<close> of \<open>1 - total / b\<close>.
\<close>

lemma budgetOf_formula:
  assumes "cellAt g 12 9 = Val (JNum (Fin b))" "b \<noteq> 0"
    "cellAt g 12 10 = Formula BudgetRow" "cellAt g 2 3 = Formula (SumCol 3)"
  shows "budgetOf E g = (JNum (Fin b), parsePct (JNum (Fin (1 - sumColumn g 3 / b))))"
proof -
  have i12: "getValue E g 12 9 = JNum (Fin b)"
    by (simp add: getValue_def eval1_def assms(1))
  have c2: "eval1 E g 2 3 = JNum (Fin (sumColumn g 3))"
    by (simp add: eval1_def assms(4))
  have i12': "eval1 E g 12 9 = JNum (Fin b)"
    by (simp add: eval1_def assms(1))
  have j12: "getValue E g 12 10 = JNum (Fin (1 - sumColumn g 3 / b))"
    using assms(2) by (simp add: getValue_def assms(3) c2 i12' operand_def)
  have p: "parsePct (js_or (JNum (Fin x)) zero) = parsePct (JNum (Fin x))" for x
    by (simp add: js_or_def zero_def)
  show ?thesis
    using assms(2) by (simp add: budgetOf_def i12 j12 p numberOr0_def js_or_def Number_def zero_def)
qed

lemma budget_examples:
  "parsePct (JNum (Fin (1 - 800 / 1600))) = Fin 50"
  "parsePct (JNum (Fin (1 - 2000 / 1600))) = Fin (- 25)"
  by code_simp+

lemma blank_grid_stats: "statsOf E [] = [] \<and> budgetOf E [] = (zero, Fin 0)"
proof -
  have v: "getValue E [] r c = JStr []" for r c
    by (rule getValue_blank) (auto simp: cellAt_def rowAt_def cellOf_def)
  have "statsOf E [] = []"
    unfolding statsOf_def v by (simp add: numeral_eq_Suc)
  moreover have h: "parsePct (JNum (Fin 0)) = Fin 0" by code_simp
  have "budgetOf E [] = (zero, Fin 0)"
    unfolding budgetOf_def v
    by (simp add: js_or_def zero_def numberOr0_def Number_def h del: parsePct.simps)
  ultimately show ?thesis by simp
qed

text \<open>
  The writes of \<open>createMonthSheet\<close> that follow the header row, taken alone, do put
  the budget 1600 in I12, the budget formula in J12 and the total of column C in C2:
  a sheet on which they had run would report the budget 1600.
\<close>

lemma cellAt_fold_rows:
  assumes "1 \<le> r" "1 \<le> c" "n \<le> length vals"
  shows "cellAt (fold (\<lambda>i. setRowValues (r + i) c (vals ! i)) [0..<n] g) r' c' =
     (if r \<le> r' \<and> r' < r + n \<and> c \<le> c' \<and> c' < c + length (vals ! (r' - r))
      then toCell (vals ! (r' - r) ! (c' - c)) else cellAt g r' c')"
  using assms(3)
proof (induction n)
  case 0
  then show ?case by auto
next
  case (Suc n)
  have "1 \<le> r + n" using assms(1) by simp
  from cellAt_setRowValues [OF this assms(2)] Suc show ?case
    by (auto simp: less_Suc_eq)
qed

lemma cellAt_setValues:
  assumes "1 \<le> r" "1 \<le> c" "length vals = nr" "list_all (\<lambda>vs. length vs = nc) vals"
  shows "snd (setValues r c nr nc vals g) = None"
    and "cellAt (fst (setValues r c nr nc vals g)) r' c' =
     (if r \<le> r' \<and> r' < r + nr \<and> c \<le> c' \<and> c' < c + nc
      then toCell (vals ! (r' - r) ! (c' - c)) else cellAt g r' c')"
proof -
  show "snd (setValues r c nr nc vals g) = None"
    using assms(3,4) by (simp add: setValues_def)
  have len: "length (vals ! (r' - r)) = nc" if "r \<le> r'" "r' < r + nr"
    using that assms(3,4) by (auto simp: list_all_length)
  have "fst (setValues r c nr nc vals g)
      = fold (\<lambda>i. setRowValues (r + i) c (vals ! i)) [0..<nr] g"
    using assms(3,4) by (simp add: setValues_def)
  then show "cellAt (fst (setValues r c nr nc vals g)) r' c' =
     (if r \<le> r' \<and> r' < r + nr \<and> c \<le> c' \<and> c' < c + nc
      then toCell (vals ! (r' - r) ! (c' - c)) else cellAt g r' c')"
    using cellAt_fold_rows [OF assms(1,2), of nr vals g r' c'] assms(3) len
    by auto
qed

lemma andThen_ok: "snd st = None \<Longrightarrow> andThen st f = f (fst st)"
  by (cases st) (simp add: andThen_def)

lemma layoutRest_cells:
  "snd (layoutRest g) = None"
  "cellAt (fst (layoutRest g)) 12 9 = Val (JNum (Fin 1600))"
  "cellAt (fst (layoutRest g)) 12 10 = Formula BudgetRow"
  "cellAt (fst (layoutRest g)) 2 3 = Formula (SumCol 3)"
proof -
  let ?g1 = "setCell 2 4 (Formula (SumCol 4)) (setCell 2 3 (Formula (SumCol 3))
       (setCell 2 2 (Formula (SumCol 2)) (setCell 2 1 (Val (JStr ''TOTALS'')) g)))"
  let ?s2 = "setValues 2 8 1 3 [[JStr ''Category'', JStr ''EUR'', JStr ''%'']] ?g1"
  let ?s3 = "setValues 3 8 9 1 categories (fst ?s2)"
  let ?g4 = "fold (\<lambda>r. setCell r 10 (Formula PctRow)) [3..<12]
       (fold (\<lambda>r. setCell r 9 (Formula SumIfRow)) [3..<12] (fst ?s3))"
  let ?g5 = "setCell 12 10 (Formula BudgetRow) (setCell 12 9 (Val (JNum (Fin 1600)))
       (setCell 12 8 (Val (JStr ''Budget'')) ?g4))"
  have c: "length categories = 9" "list_all (\<lambda>vs. length vs = Suc 0) categories"
    by (simp_all add: categories_def)
  have s2: "snd ?s2 = None" by (rule cellAt_setValues(1)) simp_all
  have s3: "snd ?s3 = None" by (rule cellAt_setValues(1)) (simp_all add: c)
  have eq: "layoutRest g = (?g5, None)"
    unfolding layoutRest_def by (simp only: andThen_ok [OF s2] andThen_ok [OF s3])
  show "snd (layoutRest g) = None" by (simp add: eq)
  show "cellAt (fst (layoutRest g)) 12 9 = Val (JNum (Fin 1600))"
    by (simp add: eq cellAt_setCell)
  show "cellAt (fst (layoutRest g)) 12 10 = Formula BudgetRow"
    by (simp add: eq cellAt_setCell)
  have c2: "cellAt ?g1 2 3 = Formula (SumCol 3)" by (simp add: cellAt_setCell)
  have a2: "cellAt (fst ?s2) 2 3 = cellAt ?g1 2 3"
    by (subst cellAt_setValues(2)) simp_all
  have a3: "cellAt (fst ?s3) 2 3 = cellAt (fst ?s2) 2 3"
    by (subst cellAt_setValues(2)) (simp_all add: c)
  have a4: "cellAt ?g4 2 3 = cellAt (fst ?s3) 2 3"
    by (simp add: cellAt_setCell)
  have "cellAt ?g5 2 3 = cellAt ?g4 2 3" by (simp add: cellAt_setCell)
  then show "cellAt (fst (layoutRest g)) 2 3 = Formula (SumCol 3)"
    by (simp only: eq fst_conv a4 a3 a2 c2)
qed

lemma intended_budget:
  "budgetOf E (fst (layoutRest g)) =
     (JNum (Fin 1600), parsePct (JNum (Fin (1 - sumColumn (fst (layoutRest g)) 3 / 1600))))"
  by (rule budgetOf_formula) (simp_all add: layoutRest_cells)

text \<open>
  Claim C7, at the input where the script departs from it: the first \<open>addEntry\<close> of
  February 2026 leaves an empty sheet, since the header write of \<open>createMonthSheet\<close>
  throws before the budget row is written; \<open>getStats\<close> then reports the budget
  amount 0 and the percentage 0, not 1600 and 100.
\<close>

theorem new_month_has_no_budget:
  "doGet demoEnv [] addRequest =
     ([\<lparr>getName = ''February 2026'', grid = []\<rparr>],
      Inr (Message error (''Add failed: Exception: The number of columns in the data does not match the number of columns in the range.'')))
   \<and> doGet demoEnv [\<lparr>getName = ''February 2026'', grid = []\<rparr>] statsRequest =
     ([\<lparr>getName = ''February 2026'', grid = []\<rparr>], Inr (Stats [] (JNum (Fin 0), Fin 0)))"
proof -
  have a: "p_action addRequest = Some ''addEntry''" by (simp add: addRequest_def noParams_def)
  have t: "p_timestamp addRequest = Some ''15/02/2026 10:30:00''"
    by (simp add: addRequest_def noParams_def)
  have none: "getSheetByName [] ''February 2026'' = None" by (simp add: getSheetByName_def)
  have add: "doAddEntry demoEnv [] addRequest =
      ([\<lparr>getName = ''February 2026'', grid = []\<rparr>],
       err (''Add failed: '' @ exnToString rangeMismatch))"
    using getOrCreateMonthSheet_missing [OF february_name none]
    by (simp add: doAddEntry_def t)
  have s: "p_action statsRequest = Some ''getStats''" by (simp add: statsRequest_def noParams_def)
  have nm: "requestSheetName demoEnv statsRequest = ''February 2026''" by code_simp
  have f: "getSheetByName [\<lparr>getName = ''February 2026'', grid = []\<rparr>]
      (requestSheetName demoEnv statsRequest) = Some \<lparr>getName = ''February 2026'', grid = []\<rparr>"
    by (simp add: nm getSheetByName_def)
  show ?thesis
    using blank_grid_stats [of demoEnv]
    by (simp add: doGet_addEntry [OF a] add doGet_getStats [OF s f] getStatsData_def
        err_def exnToString_def rangeMismatch_def zero_def)
qed

end
